theory Spec2Isabelle
  imports Main "HOL-Library.Word"
begin

section \<open>Sidecar injection into Kubernetes pod templates (inject.go)\<close>

text \<open>
  A shallow embedding of \<^verbatim>\<open>src/inject/inject.go\<close>: the health-port resolver
  (\<^verbatim>\<open>resolvePort\<close>, \<^verbatim>\<open>healthPorts\<close>), the sidecar mutator
  (\<^verbatim>\<open>injectIntoPodTemplateSpec\<close>) and the document stream processor
  (\<^verbatim>\<open>IntoResourceFile\<close>).

  The Go code mutates the pod template through a pointer and returns only an error; the
  model returns the template as it is left behind together with the error
  (\<open>None\<close> is Go's \<^verbatim>\<open>nil\<close>). Functions of libraries outside the repository
  (\<^verbatim>\<open>encoding/json\<close>, \<^verbatim>\<open>ghodss/yaml\<close>, the Kubernetes YAML reader, the
  \<^verbatim>\<open>io.Writer\<close>) are parameters of the model.
\<close>

subsection \<open>Data model: the Kubernetes API types the code touches\<close>

text \<open>\<^verbatim>\<open>intstr.IntOrString\<close>: a tagged value; \<^verbatim>\<open>Type\<close> is an integer in Go
  (\<^verbatim>\<open>Int = 0\<close>, \<^verbatim>\<open>String = 1\<close>), so a third case stands for every other tag.\<close>

datatype intstr_Type = intstr_Int | intstr_String | intstr_Other nat

record IntOrString =
  Type :: intstr_Type
  IntVal :: "32 word"
  StrVal :: string

record HTTPGetAction =
  Port :: IntOrString

record Probe =
  HTTPGet :: "HTTPGetAction option"

record ContainerPort =
  Name :: string
  ContainerPort :: "32 word"

record ObjectFieldSelector =
  FieldPath :: string

record EnvVarSource =
  FieldRef :: "ObjectFieldSelector option"

record EnvVar =
  Name :: string
  Value :: string
  ValueFrom :: "EnvVarSource option"

record Capabilities =
  Add :: "string list"

record SecurityContext =
  CapabilitiesOf :: "Capabilities option"
  RunAsUser :: "64 word option"

record VolumeMount =
  Name :: string
  ReadOnly :: bool
  MountPath :: string

datatype PullPolicy = PullUnset | PullAlways | PullNever | PullIfNotPresent

record Container =
  Name :: string
  Image :: string
  Args :: "string list"
  Env :: "EnvVar list"
  Ports :: "ContainerPort list"
  LivenessProbe :: "Probe option"
  ReadinessProbe :: "Probe option"
  ImagePullPolicy :: PullPolicy
  SecurityContextOf :: "SecurityContext option"
  VolumeMounts :: "VolumeMount list"

record SecretVolumeSource =
  SecretName :: string

record VolumeSource =
  Secret :: "SecretVolumeSource option"

record Volume =
  Name :: string
  VolumeSourceOf :: VolumeSource

record PodSpec =
  Volumes :: "Volume list"
  Containers :: "Container list"
  ServiceAccountName :: string

text \<open>\<^verbatim>\<open>v1.PodTemplateSpec\<close>: the embedded object metadata (annotations and labels,
  Go maps that may be \<^verbatim>\<open>nil\<close>) and the pod spec.\<close>

record PodTemplateSpec =
  Annotations :: "(string \<rightharpoonup> string) option"
  Labels :: "(string \<rightharpoonup> string) option"
  Spec :: PodSpec

subsection \<open>Configuration\<close>

datatype AuthPolicy = ProxyMeshConfig_NONE | ProxyMeshConfig_MUTUAL_TLS

record ProxyMeshConfig =
  ProxyListenPort :: "32 word"
  AuthPolicyOf :: AuthPolicy
  AuthCertsPath :: string

record Params =
  InitImage :: string
  ProxyImage :: string
  Verbosity :: "64 word"
  SidecarProxyUID :: "64 word"
  Version :: string
  EnableCoreDump :: bool
  Mesh :: "ProxyMeshConfig option"
  MeshConfigMapName :: string
  IncludeIPRanges :: string

subsection \<open>Errors\<close>

text \<open>Every error value the code can return, and the two run-time panics it can raise
  (a \<^verbatim>\<open>nil\<close> pointer dereference, a failed type assertion).\<close>

datatype error =
    MissingNamedPort IntOrString
  | IncorrectPortType IntOrString
  | MultiError "error list"
  | JSONError string
  | YAMLError string
  | ReadError string
  | WriteError string
  | NilPointerPanic
  | TypeAssertionPanic

text \<open>\<^verbatim>\<open>multierror.Append(errs, err)\<close>: the first call on a \<^verbatim>\<open>nil\<close> error creates
  the aggregate, later calls extend it.\<close>

fun multierror_Append :: "error option \<Rightarrow> error \<Rightarrow> error option" where
  "multierror_Append None e = Some (MultiError [e])"
| "multierror_Append (Some (MultiError es)) e = Some (MultiError (es @ [e]))"
| "multierror_Append (Some e0) e = Some (MultiError [e0, e])"

subsection \<open>Constants of the package\<close>

definition istioSidecarAnnotationSidecarKey :: string where
  "istioSidecarAnnotationSidecarKey = ''alpha.istio.io/sidecar''"

definition istioSidecarAnnotationSidecarValue :: string where
  "istioSidecarAnnotationSidecarValue = ''injected''"

definition istioSidecarAnnotationVersionKey :: string where
  "istioSidecarAnnotationVersionKey = ''alpha.istio.io/version''"

definition initContainersKey :: string where
  "initContainersKey = ''pod.beta.kubernetes.io/init-containers''"

definition initContainerName :: string where
  "initContainerName = ''init''"

definition proxyContainerName :: string where
  "proxyContainerName = ''proxy''"

definition enableCoreDumpContainerName :: string where
  "enableCoreDumpContainerName = ''enable-core-dump''"

definition enableCoreDumpImage :: string where
  "enableCoreDumpImage = ''alpine''"

definition istioCertVolumeName :: string where
  "istioCertVolumeName = ''istio-certs''"

definition istioCertSecretPrefix :: string where
  "istioCertSecretPrefix = ''istio.''"

subsection \<open>Decimal rendering of integers\<close>

text \<open>\<^verbatim>\<open>strconv.Itoa\<close>, \<^verbatim>\<open>strconv.FormatInt(_, 10)\<close> and
  \<^verbatim>\<open>fmt.Sprintf("%d", _)\<close> all print a signed integer in base ten.\<close>

definition digit_char :: "nat \<Rightarrow> char" where
  "digit_char d = ''0123456789'' ! d"

function nat_dec :: "nat \<Rightarrow> string" where
  "nat_dec n = (if n < 10 then [digit_char n] else nat_dec (n div 10) @ [digit_char (n mod 10)])"
  by pat_completeness auto
termination
  by (relation "measure id") auto

declare nat_dec.simps [simp del]

definition Itoa :: "int \<Rightarrow> string" where
  "Itoa i = (if i < 0 then CHR ''-'' # nat_dec (nat (- i)) else nat_dec (nat i))"

subsection \<open>Health port resolver\<close>

definition resolvePort :: "Container \<Rightarrow> IntOrString \<Rightarrow> error + int" where
  "resolvePort c port =
     (case Type port of
        intstr_Int \<Rightarrow> Inr (sint (IntVal port))
      | intstr_String \<Rightarrow>
          (case find (\<lambda>named. ContainerPort.Name named = StrVal port) (Ports c) of
             Some named \<Rightarrow> Inr (sint (ContainerPort named))
           | None \<Rightarrow> Inl (MissingNamedPort port))
      | intstr_Other _ \<Rightarrow> Inl (IncorrectPortType port))"

text \<open>One probe of one container: nothing happens unless the probe is set and is an
  HTTP-get probe; otherwise the port is added to the set or the error is aggregated.\<close>

definition probePort :: "Container \<Rightarrow> Probe option \<Rightarrow> int set \<times> error option \<Rightarrow> int set \<times> error option" where
  "probePort container probe st =
     (case probe of
        None \<Rightarrow> st
      | Some pr \<Rightarrow>
          (case HTTPGet pr of
             None \<Rightarrow> st
           | Some h \<Rightarrow>
               (case resolvePort container (Port h) of
                  Inl err \<Rightarrow> (fst st, multierror_Append (snd st) err)
                | Inr port \<Rightarrow> (insert port (fst st), snd st))))"

fun healthPorts_loop :: "Container list \<Rightarrow> int set \<times> error option \<Rightarrow> int set \<times> error option" where
  "healthPorts_loop [] st = st"
| "healthPorts_loop (container # rest) st =
     healthPorts_loop rest
       (probePort container (ReadinessProbe container)
          (probePort container (LivenessProbe container) st))"

text \<open>The ports of the set are collected in the map's iteration order and then sorted by
  \<^verbatim>\<open>sort.Ints\<close>: whatever that order was, the result is the sorted list of the set.\<close>

definition healthPorts :: "PodTemplateSpec \<Rightarrow> int list \<times> error option" where
  "healthPorts t =
     (let (set, errs) = healthPorts_loop (Containers (Spec t)) ({}, None)
      in (sorted_list_of_set set, errs))"

subsection \<open>The init-containers annotation\<close>

text \<open>The annotation holds a JSON array. Go decodes it into \<^verbatim>\<open>[]interface{}\<close>; the values
  an \<^verbatim>\<open>interface{}\<close> holds here are the JSON values. A JSON number is decoded into a
  \<^verbatim>\<open>float64\<close>, which the code never inspects.\<close>

typedecl float64

datatype jvalue =
    JNull
  | JBool bool
  | JNumber float64
  | JString string
  | JArray "jvalue list"
  | JObject "(string \<times> jvalue) list"

text \<open>\<^verbatim>\<open>json.Unmarshal\<close> into a \<^verbatim>\<open>nil\<close> slice of \<^verbatim>\<open>interface{}\<close> and
  \<^verbatim>\<open>json.Marshal\<close> of such a slice, with their error messages: the standard library,
  taken as parameters.\<close>

record json_lib =
  json_Unmarshal :: "string \<Rightarrow> string + jvalue list"
  json_Marshal :: "jvalue list \<Rightarrow> string + string"

definition enableCoreDumpContainer :: jvalue where
  "enableCoreDumpContainer = JObject
     [(''name'', JString enableCoreDumpContainerName),
      (''image'', JString enableCoreDumpImage),
      (''command'', JArray [JString ''/bin/sh'']),
      (''args'', JArray
         [JString ''-c'',
          JString ''sysctl -w kernel.core_pattern=/tmp/core.%e.%p.%t && ulimit -c unlimited'']),
      (''imagePullPolicy'', JString ''Always''),
      (''securityContext'', JObject [(''privileged'', JBool True)])]"

definition initArgs :: "Params \<Rightarrow> ProxyMeshConfig \<Rightarrow> string list" where
  "initArgs p mesh =
     (let args = [''-p'', Itoa (sint (ProxyListenPort mesh)),
                  ''-u'', Itoa (sint (SidecarProxyUID p))]
      in if IncludeIPRanges p \<noteq> [] then args @ [''-i'', IncludeIPRanges p] else args)"

definition initContainer :: "Params \<Rightarrow> ProxyMeshConfig \<Rightarrow> jvalue" where
  "initContainer p mesh = JObject
     [(''name'', JString initContainerName),
      (''image'', JString (InitImage p)),
      (''args'', JArray (map JString (initArgs p mesh))),
      (''imagePullPolicy'', JString ''Always''),
      (''securityContext'', JObject
         [(''capabilities'', JObject [(''add'', JArray [JString ''NET_ADMIN''])])])]"

subsection \<open>Sidecar mutator\<close>

definition sidecarArgs :: "Params \<Rightarrow> int list \<Rightarrow> string list" where
  "sidecarArgs p ports =
     (let args = [''proxy'', ''sidecar''];
          args = (if 0 < sint (Verbosity p) then args @ [''-v'', Itoa (sint (Verbosity p))] else args);
          args = (if MeshConfigMapName p \<noteq> [] then args @ [''--meshConfig'', MeshConfigMapName p] else args)
      in foldl (\<lambda>args port. args @ [''--passthrough'', Itoa port]) args ports)"

definition fieldRefEnv :: "string \<Rightarrow> string \<Rightarrow> EnvVar" where
  "fieldRefEnv name path =
     \<lparr>EnvVar.Name = name, Value = [],
      ValueFrom = Some \<lparr>FieldRef = Some \<lparr>FieldPath = path\<rparr>\<rparr>\<rparr>"

definition sidecarContainer :: "Params \<Rightarrow> string list \<Rightarrow> VolumeMount list \<Rightarrow> Container" where
  "sidecarContainer p args volumeMounts =
     \<lparr>Container.Name = proxyContainerName,
      Image = ProxyImage p,
      Args = args,
      Env = [fieldRefEnv ''POD_NAME'' ''metadata.name'',
             fieldRefEnv ''POD_NAMESPACE'' ''metadata.namespace'',
             fieldRefEnv ''POD_IP'' ''status.podIP''],
      Ports = [],
      LivenessProbe = None,
      ReadinessProbe = None,
      ImagePullPolicy = PullAlways,
      SecurityContextOf = Some \<lparr>CapabilitiesOf = None, RunAsUser = Some (SidecarProxyUID p)\<rparr>,
      VolumeMounts = volumeMounts\<rparr>"

definition certVolumeMount :: "ProxyMeshConfig \<Rightarrow> VolumeMount" where
  "certVolumeMount mesh =
     \<lparr>VolumeMount.Name = istioCertVolumeName, ReadOnly = True, MountPath = AuthCertsPath mesh\<rparr>"

definition certVolume :: "PodTemplateSpec \<Rightarrow> Volume" where
  "certVolume t =
     (let sa = ServiceAccountName (Spec t);
          sa = (if sa = [] then ''default'' else sa)
      in \<lparr>Volume.Name = istioCertVolumeName,
          VolumeSourceOf = \<lparr>Secret = Some \<lparr>SecretName = istioCertSecretPrefix @ sa\<rparr>\<rparr>\<rparr>)"

text \<open>The marker test of the guard: the annotations map is not \<^verbatim>\<open>nil\<close> and holds the
  marker key, whatever its value.\<close>

definition hasMarker :: "PodTemplateSpec \<Rightarrow> bool" where
  "hasMarker t =
     (case Annotations t of
        None \<Rightarrow> False
      | Some m \<Rightarrow> m istioSidecarAnnotationSidecarKey \<noteq> None)"

definition injectIntoPodTemplateSpec ::
  "json_lib \<Rightarrow> Params \<Rightarrow> PodTemplateSpec \<Rightarrow> PodTemplateSpec \<times> error option" where
  "injectIntoPodTemplateSpec js p t =
     (if hasMarker t then (t, None)
      else
        let m0 = (case Annotations t of None \<Rightarrow> Map.empty | Some m \<Rightarrow> m);
            m1 = m0(istioSidecarAnnotationSidecarKey \<mapsto> istioSidecarAnnotationSidecarValue,
                    istioSidecarAnnotationVersionKey \<mapsto> Version p);
            t1 = t\<lparr>Annotations := Some m1\<rparr>
        in
          (case (case m1 initContainersKey of
                   None \<Rightarrow> Inr []
                 | Some initContainerText \<Rightarrow> json_Unmarshal js initContainerText) of
             Inl err \<Rightarrow> (t1, Some (JSONError err))
           | Inr annotations \<Rightarrow>
               (case Mesh p of
                  None \<Rightarrow> (t1, Some NilPointerPanic)
                | Some mesh \<Rightarrow>
                    (let annotations = annotations @ [initContainer p mesh];
                         annotations =
                           (if EnableCoreDump p then annotations @ [enableCoreDumpContainer]
                            else annotations)
                     in
                       (case json_Marshal js annotations of
                          Inl err \<Rightarrow> (t1, Some (JSONError err))
                        | Inr initAnnotationValue \<Rightarrow>
                            (let t2 = t1\<lparr>Annotations :=
                                          Some (m1(initContainersKey \<mapsto> initAnnotationValue))\<rparr>
                             in
                               (case healthPorts t2 of
                                  (ports, Some err) \<Rightarrow> (t2, Some err)
                                | (ports, None) \<Rightarrow>
                                    (let args = sidecarArgs p ports;
                                         mtls = (AuthPolicyOf mesh = ProxyMeshConfig_MUTUAL_TLS);
                                         volumeMounts =
                                           (if mtls then [certVolumeMount mesh] else []);
                                         t3 = (if mtls
                                               then t2\<lparr>Spec := (Spec t2)\<lparr>Volumes :=
                                                      Volumes (Spec t2) @ [certVolume t2]\<rparr>\<rparr>
                                               else t2);
                                         sidecar = sidecarContainer p args volumeMounts
                                     in (t3\<lparr>Spec := (Spec t3)\<lparr>Containers :=
                                               Containers (Spec t3) @ [sidecar]\<rparr>\<rparr>,
                                         None)))))))))"

subsection \<open>Document stream processor\<close>

record TypeMeta =
  Kind :: string
  APIVersion :: string

text \<open>The five workload types. Each holds one pod template; everything else of the
  object is the first component, of a type \<open>'o\<close> the code never looks into. Four types embed
  the template, \<^verbatim>\<open>ReplicationController\<close> points to it (and the pointer may be
  \<^verbatim>\<open>nil\<close>).\<close>

datatype 'o Typ =
    Job 'o PodTemplateSpec
  | DaemonSet 'o PodTemplateSpec
  | ReplicaSet 'o PodTemplateSpec
  | Deployment 'o PodTemplateSpec
  | ReplicationController 'o "PodTemplateSpec option"

text \<open>\<^verbatim>\<open>yaml.Unmarshal(raw, &meta)\<close>, \<^verbatim>\<open>yaml.Unmarshal(raw, kind.typ)\<close> (which fills the
  object it is given) and \<^verbatim>\<open>yaml.Marshal(kind.typ)\<close>, with their error messages.\<close>

record 'o yaml_lib =
  yaml_UnmarshalMeta :: "string \<Rightarrow> string + TypeMeta"
  yaml_Unmarshal :: "string \<Rightarrow> 'o Typ \<Rightarrow> string + 'o Typ"
  yaml_Marshal :: "'o Typ \<Rightarrow> string + string"

text \<open>The zero value of a pod template, as in \<^verbatim>\<open>&batch.Job{}\<close>.\<close>

definition zeroPodTemplateSpec :: PodTemplateSpec where
  "zeroPodTemplateSpec =
     \<lparr>Annotations = None, Labels = None,
      Spec = \<lparr>Volumes = [], Containers = [], ServiceAccountName = []\<rparr>\<rparr>"

record 'o kindEntry =
  kind_typ :: "'o Typ"
  kind_inject :: "'o Typ \<Rightarrow> 'o Typ \<times> error option"

text \<open>The closures of the table: a type assertion on the object (a panic when it fails),
  then the mutator on the template inside. The object is returned as the mutator leaves it.\<close>

definition injectJob :: "json_lib \<Rightarrow> Params \<Rightarrow> 'o Typ \<Rightarrow> 'o Typ \<times> error option" where
  "injectJob js p ty =
     (case ty of
        Job x t \<Rightarrow> (case injectIntoPodTemplateSpec js p t of (t', e) \<Rightarrow> (Job x t', e))
      | _ \<Rightarrow> (ty, Some TypeAssertionPanic))"

definition injectDaemonSet :: "json_lib \<Rightarrow> Params \<Rightarrow> 'o Typ \<Rightarrow> 'o Typ \<times> error option" where
  "injectDaemonSet js p ty =
     (case ty of
        DaemonSet x t \<Rightarrow> (case injectIntoPodTemplateSpec js p t of (t', e) \<Rightarrow> (DaemonSet x t', e))
      | _ \<Rightarrow> (ty, Some TypeAssertionPanic))"

definition injectReplicaSet :: "json_lib \<Rightarrow> Params \<Rightarrow> 'o Typ \<Rightarrow> 'o Typ \<times> error option" where
  "injectReplicaSet js p ty =
     (case ty of
        ReplicaSet x t \<Rightarrow> (case injectIntoPodTemplateSpec js p t of (t', e) \<Rightarrow> (ReplicaSet x t', e))
      | _ \<Rightarrow> (ty, Some TypeAssertionPanic))"

definition injectDeployment :: "json_lib \<Rightarrow> Params \<Rightarrow> 'o Typ \<Rightarrow> 'o Typ \<times> error option" where
  "injectDeployment js p ty =
     (case ty of
        Deployment x t \<Rightarrow> (case injectIntoPodTemplateSpec js p t of (t', e) \<Rightarrow> (Deployment x t', e))
      | _ \<Rightarrow> (ty, Some TypeAssertionPanic))"

definition injectReplicationController ::
  "json_lib \<Rightarrow> Params \<Rightarrow> 'o Typ \<Rightarrow> 'o Typ \<times> error option" where
  "injectReplicationController js p ty =
     (case ty of
        ReplicationController x None \<Rightarrow> (ty, Some NilPointerPanic)
      | ReplicationController x (Some t) \<Rightarrow>
          (case injectIntoPodTemplateSpec js p t of (t', e) \<Rightarrow> (ReplicationController x (Some t'), e))
      | _ \<Rightarrow> (ty, Some TypeAssertionPanic))"

text \<open>The table \<^verbatim>\<open>kinds\<close>; \<open>z\<close> is the zero value of the rest of an object.\<close>

definition kinds :: "json_lib \<Rightarrow> Params \<Rightarrow> 'o \<Rightarrow> string \<rightharpoonup> 'o kindEntry" where
  "kinds js p z = map_of
     [(''Job'', \<lparr>kind_typ = Job z zeroPodTemplateSpec, kind_inject = injectJob js p\<rparr>),
      (''DaemonSet'', \<lparr>kind_typ = DaemonSet z zeroPodTemplateSpec, kind_inject = injectDaemonSet js p\<rparr>),
      (''ReplicaSet'', \<lparr>kind_typ = ReplicaSet z zeroPodTemplateSpec, kind_inject = injectReplicaSet js p\<rparr>),
      (''Deployment'', \<lparr>kind_typ = Deployment z zeroPodTemplateSpec, kind_inject = injectDeployment js p\<rparr>),
      (''ReplicationController'',
         \<lparr>kind_typ = ReplicationController z None, kind_inject = injectReplicationController js p\<rparr>)]"

text \<open>The body of the loop up to the writes: what \<^verbatim>\<open>updated\<close> holds for one document,
  or the error the loop returns.\<close>

definition updatedOf ::
  "json_lib \<Rightarrow> 'o yaml_lib \<Rightarrow> Params \<Rightarrow> 'o \<Rightarrow> string \<Rightarrow> error + string" where
  "updatedOf js ys p z raw =
     (case yaml_UnmarshalMeta ys raw of
        Inl err \<Rightarrow> Inl (YAMLError err)
      | Inr meta \<Rightarrow>
          (case kinds js p z (Kind meta) of
             Some kind \<Rightarrow>
               (case yaml_Unmarshal ys raw (kind_typ kind) of
                  Inl err \<Rightarrow> Inl (YAMLError err)
                | Inr obj \<Rightarrow>
                    (case kind_inject kind obj of
                       (obj', Some err) \<Rightarrow> Inl err
                     | (obj', None) \<Rightarrow>
                         (case yaml_Marshal ys obj' of
                            Inl err \<Rightarrow> Inl (YAMLError err)
                          | Inr updated \<Rightarrow> Inr updated)))
           | None \<Rightarrow> Inr raw))"

text \<open>The writer \<^verbatim>\<open>out\<close>: the bytes it has taken so far, and \<open>wfail\<close>, which says for
  these bytes and the next chunk whether the write fails and with which message.\<close>

definition Write :: "(string \<Rightarrow> string \<Rightarrow> string option) \<Rightarrow> string \<Rightarrow> string \<Rightarrow> error + string" where
  "Write wfail out chunk =
     (case wfail out chunk of
        Some err \<Rightarrow> Inl (WriteError err)
      | None \<Rightarrow> Inr (out @ chunk))"

definition separator :: string where
  "separator = ''---\<newline>''"

text \<open>The loop of \<^verbatim>\<open>IntoResourceFile\<close>. The input is the sequence of results of
  \<^verbatim>\<open>reader.Read()\<close> before the end of the input: a document (\<open>Inr\<close>) or a read error
  (\<open>Inl\<close>). The result is the output written and the error returned.\<close>

fun IntoResourceFile ::
  "json_lib \<Rightarrow> 'o yaml_lib \<Rightarrow> 'o \<Rightarrow> (string \<Rightarrow> string \<Rightarrow> string option) \<Rightarrow>
   Params \<Rightarrow> (string + string) list \<Rightarrow> string \<Rightarrow> string \<times> error option" where
  "IntoResourceFile js ys z wfail p [] out = (out, None)"
| "IntoResourceFile js ys z wfail p (Inl err # rest) out = (out, Some (ReadError err))"
| "IntoResourceFile js ys z wfail p (Inr raw # rest) out =
     (case updatedOf js ys p z raw of
        Inl err \<Rightarrow> (out, Some err)
      | Inr updated \<Rightarrow>
          (case Write wfail out updated of
             Inl err \<Rightarrow> (out, Some err)
           | Inr out1 \<Rightarrow>
               (case Write wfail out1 separator of
                  Inl err \<Rightarrow> (out1, Some err)
                | Inr out2 \<Rightarrow> IntoResourceFile js ys z wfail p rest out2)))"

subsection \<open>Notions used to state the properties\<close>

text \<open>The annotations of a template as a map (a \<^verbatim>\<open>nil\<close> map reads as the empty map).\<close>

definition annotationsOf :: "PodTemplateSpec \<Rightarrow> string \<rightharpoonup> string" where
  "annotationsOf t = (case Annotations t of None \<Rightarrow> Map.empty | Some m \<Rightarrow> m)"

text \<open>The entries of the init-containers annotation a template comes with: none when the
  annotation is absent, what \<^verbatim>\<open>json.Unmarshal\<close> makes of it otherwise.\<close>

definition decodeInitContainers :: "json_lib \<Rightarrow> PodTemplateSpec \<Rightarrow> string + jvalue list" where
  "decodeInitContainers js t =
     (case annotationsOf t initContainersKey of
        None \<Rightarrow> Inr []
      | Some s \<Rightarrow> json_Unmarshal js s)"

definition initEntries :: "Params \<Rightarrow> ProxyMeshConfig \<Rightarrow> jvalue list" where
  "initEntries p mesh =
     initContainer p mesh # (if EnableCoreDump p then [enableCoreDumpContainer] else [])"

text \<open>The template a successful injection leaves behind, given the mesh configuration and
  the text \<open>v\<close> of the new init-containers annotation.\<close>

definition injected ::
  "Params \<Rightarrow> ProxyMeshConfig \<Rightarrow> string \<Rightarrow> PodTemplateSpec \<Rightarrow> PodTemplateSpec" where
  "injected p mesh v t =
     t\<lparr>Annotations := Some ((annotationsOf t)
          (istioSidecarAnnotationSidecarKey \<mapsto> istioSidecarAnnotationSidecarValue,
           istioSidecarAnnotationVersionKey \<mapsto> Version p,
           initContainersKey \<mapsto> v)),
       Spec := (Spec t)
         \<lparr>Volumes := Volumes (Spec t) @
            (if AuthPolicyOf mesh = ProxyMeshConfig_MUTUAL_TLS then [certVolume t] else []),
          Containers := Containers (Spec t) @
            [sidecarContainer p (sidecarArgs p (fst (healthPorts t)))
               (if AuthPolicyOf mesh = ProxyMeshConfig_MUTUAL_TLS
                then [certVolumeMount mesh] else [])]\<rparr>\<rparr>"

text \<open>The template as the mutator leaves it when it fails after setting the marker and the
  version, and when it fails after writing the init-containers annotation.\<close>

definition marked :: "Params \<Rightarrow> PodTemplateSpec \<Rightarrow> PodTemplateSpec" where
  "marked p t =
     t\<lparr>Annotations := Some ((annotationsOf t)
          (istioSidecarAnnotationSidecarKey \<mapsto> istioSidecarAnnotationSidecarValue,
           istioSidecarAnnotationVersionKey \<mapsto> Version p))\<rparr>"

definition annotated :: "Params \<Rightarrow> string \<Rightarrow> PodTemplateSpec \<Rightarrow> PodTemplateSpec" where
  "annotated p v t =
     t\<lparr>Annotations := Some ((annotationsOf t)
          (istioSidecarAnnotationSidecarKey \<mapsto> istioSidecarAnnotationSidecarValue,
           istioSidecarAnnotationVersionKey \<mapsto> Version p,
           initContainersKey \<mapsto> v))\<rparr>"

text \<open>The port references of a container's HTTP-get probes, liveness first, and the result
  of resolving every such reference of a template, in the order of the containers.\<close>

definition httpGetPort :: "Probe option \<Rightarrow> IntOrString list" where
  "httpGetPort probe =
     (case probe of
        None \<Rightarrow> []
      | Some pr \<Rightarrow> (case HTTPGet pr of None \<Rightarrow> [] | Some h \<Rightarrow> [Port h]))"

definition probeRefs :: "Container \<Rightarrow> IntOrString list" where
  "probeRefs c = httpGetPort (LivenessProbe c) @ httpGetPort (ReadinessProbe c)"

definition resolutions :: "Container list \<Rightarrow> (error + int) list" where
  "resolutions cs = concat (map (\<lambda>c. map (resolvePort c) (probeRefs c)) cs)"

fun lefts :: "('a + 'b) list \<Rightarrow> 'a list" where
  "lefts [] = []"
| "lefts (Inl a # rs) = a # lefts rs"
| "lefts (Inr b # rs) = lefts rs"

fun rights :: "('a + 'b) list \<Rightarrow> 'b list" where
  "rights [] = []"
| "rights (Inl a # rs) = rights rs"
| "rights (Inr b # rs) = b # rights rs"

definition aggregate :: "error list \<Rightarrow> error option" where
  "aggregate es = (if es = [] then None else Some (MultiError es))"


fun kindOf :: "'o Typ \<Rightarrow> string" where
  "kindOf (Job x t) = ''Job''"
| "kindOf (DaemonSet x t) = ''DaemonSet''"
| "kindOf (ReplicaSet x t) = ''ReplicaSet''"
| "kindOf (Deployment x t) = ''Deployment''"
| "kindOf (ReplicationController x t) = ''ReplicationController''"

fun templateOf :: "'o Typ \<Rightarrow> PodTemplateSpec option" where
  "templateOf (Job x t) = Some t"
| "templateOf (DaemonSet x t) = Some t"
| "templateOf (ReplicaSet x t) = Some t"
| "templateOf (Deployment x t) = Some t"
| "templateOf (ReplicationController x t) = t"

text \<open>What \<^verbatim>\<open>yaml.Marshal\<close> gives for an object, as the loop body returns it.\<close>

definition reencoded :: "'o yaml_lib \<Rightarrow> 'o Typ \<Rightarrow> error + string" where
  "reencoded ys obj =
     (case yaml_Marshal ys obj of Inl err \<Rightarrow> Inl (YAMLError err) | Inr updated \<Rightarrow> Inr updated)"

text \<open>The value of a decimal numeral, used to show that \<open>Itoa\<close> is injective.\<close>

definition dec_val :: "string \<Rightarrow> nat" where
  "dec_val s = foldl (\<lambda>a c. 10 * a + (of_char c - 48)) 0 s"

subsection \<open>Sample data\<close>

text \<open>A JSON encoder for values without numbers, in the way of \<^verbatim>\<open>json.Marshal\<close>: the keys
  of an object in ascending byte order, no white space, and the double quote, the backslash
  and the ampersand of a string escaped. It serves as the library in the examples; a number,
  which the examples do not contain, is written as \<^verbatim>\<open>0\<close>.\<close>

fun json_escape :: "string \<Rightarrow> string" where
  "json_escape [] = []"
| "json_escape (c # cs) =
     (if c = CHR 0x22 then CHR 0x5C # CHR 0x22 # json_escape cs
      else if c = CHR 0x5C then CHR 0x5C # CHR 0x5C # json_escape cs
      else if c = CHR ''&'' then CHR 0x5C # ''u0026'' @ json_escape cs
      else c # json_escape cs)"

definition json_quote :: "string \<Rightarrow> string" where
  "json_quote s = [CHR 0x22] @ json_escape s @ [CHR 0x22]"

fun str_le :: "string \<Rightarrow> string \<Rightarrow> bool" where
  "str_le [] ys = True"
| "str_le (x # xs) [] = False"
| "str_le (x # xs) (y # ys) =
     ((of_char x :: nat) < of_char y \<or> (x = y \<and> str_le xs ys))"

fun insert_key :: "string \<times> 'a \<Rightarrow> (string \<times> 'a) list \<Rightarrow> (string \<times> 'a) list" where
  "insert_key kv [] = [kv]"
| "insert_key kv (kv' # rest) =
     (if str_le (fst kv) (fst kv') then kv # kv' # rest else kv' # insert_key kv rest)"

definition sort_keys :: "(string \<times> 'a) list \<Rightarrow> (string \<times> 'a) list" where
  "sort_keys kvs = foldr insert_key kvs []"

fun join :: "string list \<Rightarrow> string" where
  "join [] = []"
| "join [x] = x"
| "join (x # y # ys) = x @ '','' @ join (y # ys)"

fun json_encode :: "jvalue \<Rightarrow> string" where
  "json_encode JNull = ''null''"
| "json_encode (JBool b) = (if b then ''true'' else ''false'')"
| "json_encode (JNumber x) = ''0''"
| "json_encode (JString s) = json_quote s"
| "json_encode (JArray vs) = ''['' @ join (map json_encode vs) @ '']''"
| "json_encode (JObject kvs) =
     ''{'' @ join (map (\<lambda>(k, e). json_quote k @ '':'' @ e)
                 (sort_keys (map (\<lambda>(k, v). (k, json_encode v)) kvs))) @ ''}''"

text \<open>An init-containers annotation a template may already carry, and its decoding.\<close>

definition sample_pre_entry :: jvalue where
  "sample_pre_entry = JObject [(''name'', JString ''setup''), (''image'', JString ''busybox'')]"

definition sample_pre_text :: string where
  "sample_pre_text = json_encode (JArray [sample_pre_entry])"

definition sample_json :: json_lib where
  "sample_json =
     \<lparr>json_Unmarshal = (\<lambda>s. if s = ''[]'' then Inr []
                            else if s = sample_pre_text then Inr [sample_pre_entry]
                            else Inl ''invalid character''),
      json_Marshal = (\<lambda>vs. Inr (json_encode (JArray vs)))\<rparr>"

text \<open>The parameters of the repository's test, and a variant with mutual TLS, core dumps, a
  mesh config map and an IP range.\<close>

definition sample_mesh :: ProxyMeshConfig where
  "sample_mesh =
     \<lparr>ProxyListenPort = 15001, AuthPolicyOf = ProxyMeshConfig_NONE, AuthCertsPath = ''/etc/certs''\<rparr>"

definition sample_params :: Params where
  "sample_params =
     \<lparr>InitImage = ''docker.io/istio/init:unittest'',
      ProxyImage = ''docker.io/istio/proxy_debug:unittest'',
      Verbosity = 2, SidecarProxyUID = 1337, Version = ''12345678'', EnableCoreDump = False,
      Mesh = Some sample_mesh, MeshConfigMapName = [], IncludeIPRanges = []\<rparr>"

definition sample_params_mtls :: Params where
  "sample_params_mtls =
     sample_params
       \<lparr>EnableCoreDump := True,
        Mesh := Some (sample_mesh\<lparr>AuthPolicyOf := ProxyMeshConfig_MUTUAL_TLS\<rparr>),
        MeshConfigMapName := ''istio'', IncludeIPRanges := ''10.0.0.0/8''\<rparr>"

text \<open>Containers: the one of the test (a declared port \<^verbatim>\<open>http\<close>, no probes); one whose
  liveness probe names the port \<^verbatim>\<open>http\<close> and whose readiness probe gives 8080; one whose
  liveness probe gives 80 again; one whose liveness probe names a port \<^verbatim>\<open>web\<close> that is
  not declared.\<close>

definition httpProbe :: "IntOrString \<Rightarrow> Probe option" where
  "httpProbe port = Some \<lparr>HTTPGet = Some \<lparr>Port = port\<rparr>\<rparr>"

definition namedPort :: "string \<Rightarrow> IntOrString" where
  "namedPort name = \<lparr>Type = intstr_String, IntVal = 0, StrVal = name\<rparr>"

definition literalPort :: "32 word \<Rightarrow> IntOrString" where
  "literalPort n = \<lparr>Type = intstr_Int, IntVal = n, StrVal = []\<rparr>"

definition hello_container :: Container where
  "hello_container =
     \<lparr>Container.Name = ''hello'', Image = ''fake.docker.io/google-samples/hello-go-gke:1.0'',
      Args = [], Env = [], Ports = [\<lparr>ContainerPort.Name = ''http'', ContainerPort = 80\<rparr>],
      LivenessProbe = None, ReadinessProbe = None, ImagePullPolicy = PullUnset,
      SecurityContextOf = None, VolumeMounts = []\<rparr>"

definition web_container :: Container where
  "web_container =
     hello_container
       \<lparr>Container.Name := ''web'', LivenessProbe := httpProbe (namedPort ''http''),
        ReadinessProbe := httpProbe (literalPort 8080)\<rparr>"

definition admin_container :: Container where
  "admin_container =
     hello_container
       \<lparr>Container.Name := ''admin'', Ports := [], LivenessProbe := httpProbe (literalPort 80)\<rparr>"

definition broken_container :: Container where
  "broken_container =
     hello_container
       \<lparr>Container.Name := ''broken'', LivenessProbe := httpProbe (namedPort ''web''),
        ReadinessProbe := httpProbe (literalPort 8080)\<rparr>"

text \<open>Templates: the one of the test; one with probes, a service account and an
  init-containers annotation; one with the unresolvable probe; one that carries the marker
  under a value other than \<^verbatim>\<open>injected\<close>.\<close>

definition hello_template :: PodTemplateSpec where
  "hello_template =
     \<lparr>Annotations = None,
      Labels = Some [''app'' \<mapsto> ''hello'', ''tier'' \<mapsto> ''backend'', ''track'' \<mapsto> ''stable'',
                     ''version'' \<mapsto> ''v1''],
      Spec = \<lparr>Volumes = [], Containers = [hello_container], ServiceAccountName = []\<rparr>\<rparr>"

definition probed_template :: PodTemplateSpec where
  "probed_template =
     \<lparr>Annotations = Some [initContainersKey \<mapsto> sample_pre_text],
      Labels = Some [''app'' \<mapsto> ''web''],
      Spec = \<lparr>Volumes = [], Containers = [web_container, admin_container],
              ServiceAccountName = ''web-sa''\<rparr>\<rparr>"

definition broken_template :: PodTemplateSpec where
  "broken_template =
     hello_template\<lparr>Spec := \<lparr>Volumes = [], Containers = [broken_container, admin_container],
                              ServiceAccountName = []\<rparr>\<rparr>"

definition marked_template :: PodTemplateSpec where
  "marked_template =
     hello_template\<lparr>Annotations := Some [istioSidecarAnnotationSidecarKey \<mapsto> ''ignored'']\<rparr>"

text \<open>A stand-in for the YAML library on three documents: a \<^verbatim>\<open>Job\<close> whose template
  carries the marker, the same document after a comment line, and a \<^verbatim>\<open>Service\<close>. The
  stand-in decodes both \<^verbatim>\<open>Job\<close> documents to the same object and encodes a
  \<^verbatim>\<open>Job\<close> without any comment, as an encoder that works from the decoded object must.\<close>

definition plain_job_doc :: string where
  "plain_job_doc =
     ''kind: Job\<newline>spec:\<newline>  template:\<newline>    metadata:\<newline>      annotations:\<newline>        alpha.istio.io/sidecar: injected\<newline>''"

definition commented_job_doc :: string where
  "commented_job_doc = ''# injected earlier\<newline>'' @ plain_job_doc"

definition service_doc :: string where
  "service_doc = ''kind: Service\<newline>metadata:\<newline>  name: hello\<newline>''"

definition marked_job :: "unit Typ" where
  "marked_job =
     Job () (zeroPodTemplateSpec
       \<lparr>Annotations := Some [istioSidecarAnnotationSidecarKey \<mapsto> istioSidecarAnnotationSidecarValue]\<rparr>)"

definition sample_yaml :: "unit yaml_lib" where
  "sample_yaml =
     \<lparr>yaml_UnmarshalMeta =
        (\<lambda>raw. if raw = commented_job_doc \<or> raw = plain_job_doc
               then Inr \<lparr>Kind = ''Job'', APIVersion = []\<rparr>
               else if raw = service_doc then Inr \<lparr>Kind = ''Service'', APIVersion = []\<rparr>
               else Inl ''error converting YAML to JSON''),
      yaml_Unmarshal =
        (\<lambda>raw ty. if raw = commented_job_doc \<or> raw = plain_job_doc
                  then (case ty of
                          Job x t \<Rightarrow> Inr (Job x (t\<lparr>Annotations :=
                            Some [istioSidecarAnnotationSidecarKey \<mapsto>
                                    istioSidecarAnnotationSidecarValue]\<rparr>))
                        | _ \<Rightarrow> Inl ''error unmarshaling JSON'')
                  else Inl ''error converting YAML to JSON''),
      yaml_Marshal =
        (\<lambda>obj. case obj of
                 Job x t \<Rightarrow> Inr plain_job_doc
               | _ \<Rightarrow> Inl ''error marshaling into JSON'')\<rparr>"

text \<open>A writer that takes every chunk.\<close>

definition never_fails :: "string \<Rightarrow> string \<Rightarrow> string option" where
  "never_fails out chunk = None"

section \<open>Properties\<close>

subsection \<open>The mutator: guard and result of a successful run\<close>

lemma inject_marked: "hasMarker t \<Longrightarrow> injectIntoPodTemplateSpec js p t = (t, None)"
  by (simp add: injectIntoPodTemplateSpec_def)

lemma healthPorts_Annotations [simp]: "healthPorts (t\<lparr>Annotations := a\<rparr>) = healthPorts t"
  by (simp add: healthPorts_def)

lemma certVolume_Annotations [simp]: "certVolume (t\<lparr>Annotations := a\<rparr>) = certVolume t"
  by (simp add: certVolume_def)

lemma key_distinct:
  "istioSidecarAnnotationSidecarKey \<noteq> istioSidecarAnnotationVersionKey"
  "istioSidecarAnnotationSidecarKey \<noteq> initContainersKey"
  "istioSidecarAnnotationVersionKey \<noteq> initContainersKey"
  by (simp_all add: istioSidecarAnnotationSidecarKey_def istioSidecarAnnotationVersionKey_def
      initContainersKey_def)

lemma hasMarker_upd:
  "hasMarker (t\<lparr>Annotations := Some m\<rparr>) \<longleftrightarrow> m istioSidecarAnnotationSidecarKey \<noteq> None"
  by (simp add: hasMarker_def)

lemma hasMarker_Spec [simp]: "hasMarker (t\<lparr>Spec := s\<rparr>) = hasMarker t"
  by (simp add: hasMarker_def)

lemma inject_sets_marker: "hasMarker (fst (injectIntoPodTemplateSpec js p t))"
proof (cases "hasMarker t")
  case True
  then show ?thesis by (simp add: inject_marked)
next
  case False
  then show ?thesis
    using key_distinct
    by (simp add: injectIntoPodTemplateSpec_def Let_def hasMarker_upd
        split: sum.splits option.splits prod.splits)
qed

lemma inject_success:
  assumes "\<not> hasMarker t" and "injectIntoPodTemplateSpec js p t = (t', None)"
  shows "\<exists>mesh anns v. Mesh p = Some mesh \<and> decodeInitContainers js t = Inr anns \<and>
           json_Marshal js (anns @ initEntries p mesh) = Inr v \<and>
           snd (healthPorts t) = None \<and> t' = injected p mesh v t"
  using assms key_distinct
  by (auto simp add: injectIntoPodTemplateSpec_def Let_def decodeInitContainers_def annotationsOf_def
      initEntries_def injected_def
      split: sum.splits option.splits prod.splits if_splits)

lemma inject_success_conv:
  assumes "\<not> hasMarker t" "Mesh p = Some mesh" "decodeInitContainers js t = Inr anns"
    "json_Marshal js (anns @ initEntries p mesh) = Inr v" "snd (healthPorts t) = None"
  shows "injectIntoPodTemplateSpec js p t = (injected p mesh v t, None)"
  using assms key_distinct
  by (auto simp add: injectIntoPodTemplateSpec_def Let_def decodeInitContainers_def annotationsOf_def
      initEntries_def injected_def
      split: sum.splits option.splits prod.splits if_splits)

subsection \<open>The health port resolver\<close>

lemma foldl_multierror_Some:
  "foldl multierror_Append (Some (MultiError es0)) es = Some (MultiError (es0 @ es))"
  by (induction es arbitrary: es0) simp_all

lemma aggregate_append:
  "foldl multierror_Append (aggregate es0) es = aggregate (es0 @ es)"
proof (cases es)
  case Nil
  then show ?thesis by simp
next
  case (Cons e es')
  then show ?thesis
    by (cases "es0 = []") (simp_all add: aggregate_def foldl_multierror_Some)
qed

lemma lefts_append [simp]: "lefts (xs @ ys) = lefts xs @ lefts ys"
  by (induction xs rule: lefts.induct) simp_all

lemma rights_append [simp]: "rights (xs @ ys) = rights xs @ rights ys"
  by (induction xs rule: rights.induct) simp_all

lemma probePort_spec:
  "probePort c probe (S, aggregate es) =
     (S \<union> set (rights (map (resolvePort c) (httpGetPort probe))),
      aggregate (es @ lefts (map (resolvePort c) (httpGetPort probe))))"
proof (cases probe)
  case None
  then show ?thesis by (simp add: probePort_def httpGetPort_def)
next
  case (Some pr)
  show ?thesis
  proof (cases "HTTPGet pr")
    case None
    with Some show ?thesis by (simp add: probePort_def httpGetPort_def)
  next
    case (Some h)
    show ?thesis
    proof (cases "resolvePort c (Port h)")
      case (Inl e)
      have "multierror_Append (aggregate es) e = aggregate (es @ [e])"
        using aggregate_append [of es "[e]"] by simp
      with Inl Some \<open>probe = Some pr\<close> show ?thesis
        by (simp add: probePort_def httpGetPort_def)
    next
      case (Inr n)
      with Some \<open>probe = Some pr\<close> show ?thesis
        by (simp add: probePort_def httpGetPort_def)
    qed
  qed
qed

lemma healthPorts_loop_spec:
  "healthPorts_loop cs (S, aggregate es) =
     (S \<union> set (rights (resolutions cs)), aggregate (es @ lefts (resolutions cs)))"
proof (induction cs arbitrary: S es)
  case Nil
  then show ?case by (simp add: resolutions_def)
next
  case (Cons c cs)
  have res: "resolutions (c # cs) = map (resolvePort c) (probeRefs c) @ resolutions cs"
    by (simp add: resolutions_def)
  show ?case
    by (simp add: probePort_spec Cons.IH res probeRefs_def Un_assoc)
qed

lemma healthPorts_eq:
  "healthPorts t =
     (sorted_list_of_set (set (rights (resolutions (Containers (Spec t))))),
      aggregate (lefts (resolutions (Containers (Spec t)))))"
proof -
  have "healthPorts_loop (Containers (Spec t)) ({}, None) =
          (set (rights (resolutions (Containers (Spec t)))),
           aggregate (lefts (resolutions (Containers (Spec t)))))"
    using healthPorts_loop_spec [of "Containers (Spec t)" "{}" "[]"]
    by (simp add: aggregate_def)
  then show ?thesis by (simp add: healthPorts_def)
qed

lemma resolvePort_Int: "Type port = intstr_Int \<Longrightarrow> resolvePort c port = Inr (sint (IntVal port))"
  by (simp add: resolvePort_def)

lemma resolvePort_String_Inr:
  assumes "Type port = intstr_String" "resolvePort c port = Inr n"
  shows "\<exists>named \<in> set (Ports c). ContainerPort.Name named = StrVal port \<and> n = sint (ContainerPort named)"
  using assms
  by (auto simp: resolvePort_def find_Some_iff split: option.splits)

lemma resolvePort_String_match:
  assumes "Type port = intstr_String" "\<exists>named \<in> set (Ports c). ContainerPort.Name named = StrVal port"
  shows "\<exists>n. resolvePort c port = Inr n"
  using assms
  by (auto simp: resolvePort_def find_None_iff split: option.splits)

lemma resolvePort_String_missing:
  assumes "Type port = intstr_String" "\<forall>named \<in> set (Ports c). ContainerPort.Name named \<noteq> StrVal port"
  shows "resolvePort c port = Inl (MissingNamedPort port)"
  using assms
  by (auto simp: resolvePort_def find_None_iff split: option.splits)

subsection \<open>Sidecar arguments and decimal numerals\<close>

lemma foldl_passthrough:
  "foldl (\<lambda>args port. args @ [''--passthrough'', Itoa port]) args ports =
     args @ concat (map (\<lambda>port. [''--passthrough'', Itoa port]) ports)"
  by (induction ports arbitrary: args) simp_all

lemma sidecarArgs_eq:
  "sidecarArgs p ports =
     [''proxy'', ''sidecar''] @
     (if 0 < sint (Verbosity p) then [''-v'', Itoa (sint (Verbosity p))] else []) @
     (if MeshConfigMapName p \<noteq> [] then [''--meshConfig'', MeshConfigMapName p] else []) @
     concat (map (\<lambda>port. [''--passthrough'', Itoa port]) ports)"
  by (simp add: sidecarArgs_def Let_def foldl_passthrough)


lemma digit_char_val: "d < 10 \<Longrightarrow> (of_char (digit_char d) :: nat) = 48 + d"
proof -
  assume "d < 10"
  then have "d \<in> {0,1,2,3,4,5,6,7,8,9}" by auto
  then show ?thesis by (auto simp: digit_char_def)
qed

lemma dec_val_snoc: "dec_val (s @ [c]) = 10 * dec_val s + (of_char c - 48)"
  by (simp add: dec_val_def)

lemma dec_val_nat_dec: "dec_val (nat_dec n) = n"
proof (induction n rule: nat_dec.induct)
  case (1 n)
  show ?case
  proof (cases "n < 10")
    case True
    then show ?thesis
      by (subst nat_dec.simps) (simp add: dec_val_def digit_char_val)
  next
    case False
    then have "dec_val (nat_dec (n div 10)) = n div 10" using 1 by simp
    with False show ?thesis
      by (subst nat_dec.simps) (simp add: dec_val_snoc digit_char_val)
  qed
qed

lemma nat_dec_inj: "nat_dec m = nat_dec n \<Longrightarrow> m = n"
  by (metis dec_val_nat_dec)

lemma digit_char_not_minus: "d < 10 \<Longrightarrow> digit_char d \<noteq> CHR ''-''"
proof -
  assume "d < 10"
  then have "d \<in> {0,1,2,3,4,5,6,7,8,9}" by auto
  then show ?thesis by (auto simp: digit_char_def)
qed

lemma nat_dec_hd: "\<exists>d cs. d < 10 \<and> nat_dec n = digit_char d # cs"
proof (induction n rule: nat_dec.induct)
  case (1 n)
  show ?case
  proof (cases "n < 10")
    case True
    then show ?thesis by (subst nat_dec.simps) auto
  next
    case False
    then obtain d cs where "d < 10" "nat_dec (n div 10) = digit_char d # cs"
      using 1 by blast
    with False show ?thesis by (subst nat_dec.simps) auto
  qed
qed

lemma nat_dec_not_minus: "nat_dec n \<noteq> CHR ''-'' # cs"
proof
  assume a: "nat_dec n = CHR ''-'' # cs"
  obtain d cs' where d: "d < 10" "nat_dec n = digit_char d # cs'"
    using nat_dec_hd [of n] by blast
  with a have "digit_char d = CHR ''-''" by simp
  with digit_char_not_minus [OF d(1)] show False by simp
qed

lemma Itoa_inj: "Itoa i = Itoa j \<Longrightarrow> i = j"
proof -
  assume eq: "Itoa i = Itoa j"
  consider "i < 0" "j < 0" | "i < 0" "\<not> j < 0" | "\<not> i < 0" "j < 0" | "\<not> i < 0" "\<not> j < 0"
    by blast
  then show ?thesis
  proof cases
    case 1
    with eq have "nat (- i) = nat (- j)" by (simp add: Itoa_def nat_dec_inj)
    with 1 show ?thesis by simp
  next
    case 2
    with eq have "nat_dec (nat j) = CHR ''-'' # nat_dec (nat (- i))" by (simp add: Itoa_def)
    then show ?thesis using nat_dec_not_minus by blast
  next
    case 3
    with eq have "nat_dec (nat i) = CHR ''-'' # nat_dec (nat (- j))" by (simp add: Itoa_def)
    then show ?thesis using nat_dec_not_minus by blast
  next
    case 4
    with eq have "nat i = nat j" by (simp add: Itoa_def nat_dec_inj)
    with 4 show ?thesis by simp
  qed
qed

lemma distinct_map_Itoa: "distinct ports \<Longrightarrow> distinct (map Itoa ports)"
  by (simp add: distinct_map inj_on_def Itoa_inj)


subsection \<open>The document stream processor\<close>




lemma kind_inject_marked:
  assumes "kinds js p z (kindOf obj) = Some kind" "templateOf obj = Some t" "hasMarker t"
  shows "kind_inject kind obj = (obj, None)"
proof (cases obj)
  case (Job x t')
  with assms show ?thesis by (auto simp add: kinds_def injectJob_def inject_marked)
next
  case (DaemonSet x t')
  with assms show ?thesis by (auto simp add: kinds_def injectDaemonSet_def inject_marked)
next
  case (ReplicaSet x t')
  with assms show ?thesis by (auto simp add: kinds_def injectReplicaSet_def inject_marked)
next
  case (Deployment x t')
  with assms show ?thesis by (auto simp add: kinds_def injectDeployment_def inject_marked)
next
  case (ReplicationController x t')
  with assms show ?thesis
    by (auto simp add: kinds_def injectReplicationController_def inject_marked)
qed

lemma updatedOf_marked:
  assumes "yaml_UnmarshalMeta ys raw = Inr meta" "kinds js p z (Kind meta) = Some kind"
    "yaml_Unmarshal ys raw (kind_typ kind) = Inr obj" "kindOf obj = Kind meta"
    "templateOf obj = Some t" "hasMarker t"
  shows "updatedOf js ys p z raw = reencoded ys obj"
proof -
  have "kind_inject kind obj = (obj, None)"
    using kind_inject_marked [of js p z obj kind t] assms by simp
  with assms show ?thesis
    by (simp add: updatedOf_def reencoded_def)
qed

lemma IntoResourceFile_single:
  assumes "updatedOf js ys p z raw = Inr updated" "wfail out updated = None"
    "wfail (out @ updated) separator = None"
  shows "IntoResourceFile js ys z wfail p [Inr raw] out = (out @ updated @ separator, None)"
  using assms by (simp add: Write_def)


lemma IntoResourceFile_total:
  assumes "\<And>out chunk. wfail out chunk = None"
    "map (updatedOf js ys p z) docs = map Inr chunks"
  shows "IntoResourceFile js ys z wfail p (map Inr docs) out =
           (out @ concat (map (\<lambda>c. c @ separator) chunks), None)"
  using assms(2)
proof (induction docs arbitrary: out chunks)
  case Nil
  then show ?case by simp
next
  case (Cons d docs)
  then obtain c cs where c: "chunks = c # cs" "updatedOf js ys p z d = Inr c"
    "map (updatedOf js ys p z) docs = map Inr cs"
    by (cases chunks) auto
  show ?case
    using Cons.IH [OF c(3)] c assms(1) by (simp add: Write_def)
qed


subsection \<open>Resolved ports and errors as sets\<close>

lemma set_rights: "set (rights rs) = {n. Inr n \<in> set rs}"
  by (induction rs rule: rights.induct) auto

lemma set_lefts: "set (lefts rs) = {e. Inl e \<in> set rs}"
  by (induction rs rule: lefts.induct) auto

lemma resolved_iff:
  "n \<in> set (rights (resolutions cs)) \<longleftrightarrow>
     (\<exists>c \<in> set cs. \<exists>ref \<in> set (probeRefs c). resolvePort c ref = Inr n)"
  by (force simp: set_rights resolutions_def image_iff)

lemma failed_iff:
  "e \<in> set (lefts (resolutions cs)) \<longleftrightarrow>
     (\<exists>c \<in> set cs. \<exists>ref \<in> set (probeRefs c). resolvePort c ref = Inl e)"
  by (force simp: set_lefts resolutions_def image_iff)

lemma resolvePort_String_first:
  assumes "Type port = intstr_String" "i < length (Ports c)"
    "ContainerPort.Name (Ports c ! i) = StrVal port"
    "\<forall>j<i. ContainerPort.Name (Ports c ! j) \<noteq> StrVal port"
  shows "resolvePort c port = Inr (sint (ContainerPort (Ports c ! i)))"
proof -
  have "find (\<lambda>named. ContainerPort.Name named = StrVal port) (Ports c) = Some (Ports c ! i)"
    using assms by (auto simp: find_Some_iff)
  with assms(1) show ?thesis by (simp add: resolvePort_def)
qed

lemma resolvePort_Ports: "Ports c' = Ports c \<Longrightarrow> resolvePort c' port = resolvePort c port"
  by (simp add: resolvePort_def split: intstr_Type.splits)

lemma annotationsOf_injected:
  "annotationsOf (injected p mesh v t) =
     (annotationsOf t)
       (istioSidecarAnnotationSidecarKey \<mapsto> istioSidecarAnnotationSidecarValue,
        istioSidecarAnnotationVersionKey \<mapsto> Version p,
        initContainersKey \<mapsto> v)"
  by (simp add: injected_def annotationsOf_def)

lemma decodeInitContainers_cases:
  "decodeInitContainers js t = Inr pre \<Longrightarrow>
     (annotationsOf t initContainersKey = None \<longrightarrow> pre = []) \<and>
     (\<forall>s. annotationsOf t initContainersKey = Some s \<longrightarrow> json_Unmarshal js s = Inr pre)"
  by (auto simp: decodeInitContainers_def split: option.splits)

subsection \<open>The mutator: the failing runs\<close>

lemma inject_decode_error:
  assumes "\<not> hasMarker t" "decodeInitContainers js t = Inl e"
  shows "injectIntoPodTemplateSpec js p t = (marked p t, Some (JSONError e))"
  using assms key_distinct
  by (simp add: injectIntoPodTemplateSpec_def Let_def decodeInitContainers_def annotationsOf_def
      marked_def split: option.splits)

lemma inject_nil_mesh:
  assumes "\<not> hasMarker t" "decodeInitContainers js t = Inr pre" "Mesh p = None"
  shows "injectIntoPodTemplateSpec js p t = (marked p t, Some NilPointerPanic)"
  using assms key_distinct
  by (simp add: injectIntoPodTemplateSpec_def Let_def decodeInitContainers_def annotationsOf_def
      marked_def split: option.splits)

lemma inject_marshal_error:
  assumes "\<not> hasMarker t" "decodeInitContainers js t = Inr pre" "Mesh p = Some mesh"
    "json_Marshal js (pre @ initEntries p mesh) = Inl e"
  shows "injectIntoPodTemplateSpec js p t = (marked p t, Some (JSONError e))"
  using assms key_distinct
  by (auto simp add: injectIntoPodTemplateSpec_def Let_def decodeInitContainers_def annotationsOf_def
      marked_def initEntries_def split: option.splits if_splits)

lemma inject_healthPorts_error_eq:
  assumes "\<not> hasMarker t" "decodeInitContainers js t = Inr pre" "Mesh p = Some mesh"
    "json_Marshal js (pre @ initEntries p mesh) = Inr v" "snd (healthPorts t) = Some err"
  shows "injectIntoPodTemplateSpec js p t = (annotated p v t, Some err)"
proof -
  obtain ports where "healthPorts t = (ports, Some err)"
    using assms(5) by (cases "healthPorts t") simp
  with assms(1-4) key_distinct show ?thesis
    by (auto simp add: injectIntoPodTemplateSpec_def Let_def decodeInitContainers_def annotationsOf_def
        annotated_def initEntries_def split: option.splits if_splits)
qed

lemma inject_healthPorts_error:
  assumes "\<not> hasMarker t" and "snd (healthPorts t) = Some err"
  shows "snd (injectIntoPodTemplateSpec js p t) \<noteq> None \<and>
         Spec (fst (injectIntoPodTemplateSpec js p t)) = Spec t"
proof (cases "decodeInitContainers js t")
  case (Inl e)
  from inject_decode_error [OF assms(1) Inl] show ?thesis by (simp add: marked_def)
next
  case (Inr pre)
  show ?thesis
  proof (cases "Mesh p")
    case None
    from inject_nil_mesh [OF assms(1) Inr None] show ?thesis by (simp add: marked_def)
  next
    case (Some mesh)
    show ?thesis
    proof (cases "json_Marshal js (pre @ initEntries p mesh)")
      case (Inl e)
      from inject_marshal_error [OF assms(1) Inr Some Inl] show ?thesis by (simp add: marked_def)
    next
      case r: (Inr v)
      from inject_healthPorts_error_eq [OF assms(1) Inr Some r assms(2)] show ?thesis
        by (simp add: annotated_def)
    qed
  qed
qed

lemma unresolved_healthPorts:
  assumes "c \<in> set (Containers (Spec t))" and "ref \<in> set (probeRefs c)"
    and "Type ref = intstr_String"
    and "\<forall>named \<in> set (Ports c). ContainerPort.Name named \<noteq> StrVal ref"
  shows "snd (healthPorts t) \<noteq> None"
proof -
  have "resolvePort c ref = Inl (MissingNamedPort ref)"
    using assms(3,4) by (rule resolvePort_String_missing)
  with assms(1,2) have "MissingNamedPort ref \<in> set (lefts (resolutions (Containers (Spec t))))"
    using failed_iff by blast
  then have "lefts (resolutions (Containers (Spec t))) \<noteq> []" by auto
  then show ?thesis by (simp add: healthPorts_eq aggregate_def)
qed


subsection \<open>The sample data evaluated\<close>

lemma hasMarker_marked_template: "hasMarker marked_template"
  by (simp add: hasMarker_def marked_template_def hello_template_def)

lemma not_hasMarker_hello_template: "\<not> hasMarker hello_template"
  by (simp add: hasMarker_def hello_template_def)

lemmas sample_container_defs = hello_container_def web_container_def admin_container_def
  broken_container_def httpProbe_def namedPort_def literalPort_def

lemma resolutions_probed:
  "resolutions [web_container, admin_container] = [Inr 80, Inr 8080, Inr 80]"
  by (simp add: resolutions_def probeRefs_def httpGetPort_def resolvePort_def sample_container_defs)

lemma resolutions_broken:
  "resolutions [broken_container, admin_container] =
     [Inl (MissingNamedPort (namedPort ''web'')), Inr 8080, Inr 80]"
  by (simp add: resolutions_def probeRefs_def httpGetPort_def resolvePort_def sample_container_defs)

lemma healthPorts_sort:
  "healthPorts t =
     (sort (remdups (rights (resolutions (Containers (Spec t))))),
      aggregate (lefts (resolutions (Containers (Spec t)))))"
  by (simp only: healthPorts_eq sorted_list_of_set_sort_remdups)

lemma healthPorts_probed: "healthPorts probed_template = ([80, 8080], None)"
  by (simp add: healthPorts_sort probed_template_def resolutions_probed aggregate_def)

lemma healthPorts_broken:
  "healthPorts broken_template = ([80, 8080], Some (MultiError [MissingNamedPort (namedPort ''web'')]))"
  by (simp add: healthPorts_sort broken_template_def resolutions_broken aggregate_def)

lemmas sample_param_defs = sample_params_def sample_params_mtls_def sample_mesh_def

lemma not_hasMarker_probed_template: "\<not> hasMarker probed_template"
  by (simp add: hasMarker_def probed_template_def initContainersKey_def
      istioSidecarAnnotationSidecarKey_def)

lemma not_hasMarker_broken_template: "\<not> hasMarker broken_template"
  by (simp add: hasMarker_def broken_template_def hello_template_def)

lemma sample_pre_text_not_empty: "sample_pre_text \<noteq> ''[]''"
  by (simp add: sample_pre_text_def sample_pre_entry_def json_quote_def sort_keys_def)

lemma decode_probed: "decodeInitContainers sample_json probed_template = Inr [sample_pre_entry]"
  by (simp add: decodeInitContainers_def annotationsOf_def probed_template_def sample_json_def
      sample_pre_text_not_empty)

lemma decode_hello: "decodeInitContainers sample_json hello_template = Inr []"
  by (simp add: decodeInitContainers_def annotationsOf_def hello_template_def)

lemma healthPorts_hello: "healthPorts hello_template = ([], None)"
  by (simp add: healthPorts_sort hello_template_def resolutions_def probeRefs_def httpGetPort_def
      hello_container_def aggregate_def)

lemma inject_probed_mtls:
  "injectIntoPodTemplateSpec sample_json sample_params_mtls probed_template =
     (injected sample_params_mtls (sample_mesh\<lparr>AuthPolicyOf := ProxyMeshConfig_MUTUAL_TLS\<rparr>)
        (json_encode (JArray ([sample_pre_entry] @
           initEntries sample_params_mtls (sample_mesh\<lparr>AuthPolicyOf := ProxyMeshConfig_MUTUAL_TLS\<rparr>))))
        probed_template, None)"
  by (rule inject_success_conv [OF not_hasMarker_probed_template _ decode_probed])
    (simp_all add: sample_params_mtls_def sample_params_def sample_json_def healthPorts_probed)

lemma inject_hello:
  "injectIntoPodTemplateSpec sample_json sample_params hello_template =
     (injected sample_params sample_mesh
        (json_encode (JArray ([] @ initEntries sample_params sample_mesh))) hello_template, None)"
  by (rule inject_success_conv [OF not_hasMarker_hello_template _ decode_hello])
    (simp_all add: sample_params_def sample_json_def healthPorts_hello)

lemma inject_hello_mtls:
  "injectIntoPodTemplateSpec sample_json sample_params_mtls hello_template =
     (injected sample_params_mtls (sample_mesh\<lparr>AuthPolicyOf := ProxyMeshConfig_MUTUAL_TLS\<rparr>)
        (json_encode (JArray ([] @
           initEntries sample_params_mtls (sample_mesh\<lparr>AuthPolicyOf := ProxyMeshConfig_MUTUAL_TLS\<rparr>))))
        hello_template, None)"
  by (rule inject_success_conv [OF not_hasMarker_hello_template _ decode_hello])
    (simp_all add: sample_params_mtls_def sample_params_def sample_json_def healthPorts_hello)

lemma Itoa_samples:
  "Itoa 2 = ''2''" "Itoa 80 = ''80''" "Itoa 8080 = ''8080''" "Itoa 15001 = ''15001''"
  "Itoa 1337 = ''1337''"
  by (simp_all add: Itoa_def nat_dec.simps digit_char_def)

lemma decode_broken: "decodeInitContainers sample_json broken_template = Inr []"
  by (simp add: decodeInitContainers_def annotationsOf_def broken_template_def hello_template_def)

lemma inject_broken:
  "injectIntoPodTemplateSpec sample_json sample_params broken_template =
     (annotated sample_params (json_encode (JArray ([] @ initEntries sample_params sample_mesh)))
        broken_template,
      Some (MultiError [MissingNamedPort (namedPort ''web'')]))"
  by (rule inject_healthPorts_error_eq [OF not_hasMarker_broken_template decode_broken])
    (simp_all add: sample_params_def sample_json_def healthPorts_broken)

lemma inject_hello_fst:
  "injectIntoPodTemplateSpec sample_json sample_params hello_template =
     (fst (injectIntoPodTemplateSpec sample_json sample_params hello_template), None)"
  by (simp add: inject_hello)

lemma inject_hello_mtls_fst:
  "injectIntoPodTemplateSpec sample_json sample_params_mtls hello_template =
     (fst (injectIntoPodTemplateSpec sample_json sample_params_mtls hello_template), None)"
  by (simp add: inject_hello_mtls)

lemma inject_probed_mtls_fst:
  "injectIntoPodTemplateSpec sample_json sample_params_mtls probed_template =
     (fst (injectIntoPodTemplateSpec sample_json sample_params_mtls probed_template), None)"
  by (simp add: inject_probed_mtls)

lemma json_encode_init_hello:
  \<open>json_encode (JArray
     [JObject
        [(''name'', JString ''init''),
         (''image'', JString ''docker.io/istio/init:unittest''),
         (''args'', JArray (map JString [''-p'', ''15001'', ''-u'', ''1337''])),
         (''imagePullPolicy'', JString ''Always''),
         (''securityContext'', JObject
            [(''capabilities'', JObject [(''add'', JArray [JString ''NET_ADMIN''])])])]]) =
   ''[{"args":["-p","15001","-u","1337"],"image":"docker.io/istio/init:unittest","imagePullPolicy":"Always","name":"init","securityContext":{"capabilities":{"add":["NET_ADMIN"]}}}]''\<close>
  by (simp add: initContainerName_def json_quote_def sort_keys_def)

lemma sample_docs_distinct:
  "commented_job_doc \<noteq> plain_job_doc" "service_doc \<noteq> commented_job_doc"
  "service_doc \<noteq> plain_job_doc"
  by (simp_all add: commented_job_doc_def plain_job_doc_def service_doc_def)

lemma meta_commented_job:
  "yaml_UnmarshalMeta sample_yaml commented_job_doc = Inr \<lparr>Kind = ''Job'', APIVersion = []\<rparr>"
  by (simp add: sample_yaml_def)


lemma kinds_Job:
  "kinds js p z ''Job'' = Some \<lparr>kind_typ = Job z zeroPodTemplateSpec, kind_inject = injectJob js p\<rparr>"
  by (simp add: kinds_def)

lemma unmarshal_commented_job:
  "yaml_Unmarshal sample_yaml commented_job_doc (Job () zeroPodTemplateSpec) = Inr marked_job"
  by (simp add: sample_yaml_def marked_job_def)

lemma hasMarker_marked_job:
  "hasMarker (zeroPodTemplateSpec
     \<lparr>Annotations := Some [istioSidecarAnnotationSidecarKey \<mapsto> istioSidecarAnnotationSidecarValue]\<rparr>)"
  by (simp add: hasMarker_def)

lemma marshal_marked_job: "yaml_Marshal sample_yaml marked_job = Inr plain_job_doc"
  by (simp add: sample_yaml_def marked_job_def)

lemma kinds_sample_Job:
  "kinds sample_json sample_params () (Kind \<lparr>Kind = ''Job'', APIVersion = []\<rparr>) =
     Some \<lparr>kind_typ = Job () zeroPodTemplateSpec, kind_inject = injectJob sample_json sample_params\<rparr>"
  by (simp add: kinds_Job)

lemma unmarshal_sample_Job:
  "yaml_Unmarshal sample_yaml commented_job_doc
      (kind_typ \<lparr>kind_typ = Job () zeroPodTemplateSpec,
                 kind_inject = injectJob sample_json sample_params\<rparr>) = Inr marked_job"
  by (simp add: unmarshal_commented_job)

lemma kindOf_marked_job: "kindOf marked_job = Kind \<lparr>Kind = ''Job'', APIVersion = []\<rparr>"
  by (simp add: marked_job_def)

lemma templateOf_marked_job:
  "templateOf marked_job = Some (zeroPodTemplateSpec
     \<lparr>Annotations := Some [istioSidecarAnnotationSidecarKey \<mapsto> istioSidecarAnnotationSidecarValue]\<rparr>)"
  by (simp add: marked_job_def)

lemma updatedOf_commented_job:
  "updatedOf sample_json sample_yaml sample_params () commented_job_doc = Inr plain_job_doc"
proof -
  have "updatedOf sample_json sample_yaml sample_params () commented_job_doc =
      reencoded sample_yaml marked_job"
    by (rule updatedOf_marked [OF meta_commented_job kinds_sample_Job unmarshal_sample_Job
          kindOf_marked_job templateOf_marked_job hasMarker_marked_job])
  then show ?thesis by (simp add: reencoded_def marshal_marked_job)
qed

lemma annotation_probed:
  "annotationsOf probed_template initContainersKey = Some sample_pre_text"
  by (simp add: annotationsOf_def probed_template_def)

lemma unmarshal_sample_pre:
  "json_Unmarshal sample_json sample_pre_text = Inr [sample_pre_entry]"
  by (simp add: sample_json_def sample_pre_text_not_empty)

lemma sample_pre_text_eq: \<open>sample_pre_text = ''[{"image":"busybox","name":"setup"}]''\<close>
  by (simp add: sample_pre_text_def sample_pre_entry_def json_quote_def sort_keys_def)

lemma json_encode_probed:
  \<open>json_encode (JArray
     [sample_pre_entry,
      JObject
          [(''name'', JString ''init''),
           (''image'', JString ''docker.io/istio/init:unittest''),
           (''args'', JArray (map JString [''-p'', ''15001'', ''-u'', ''1337'', ''-i'', ''10.0.0.0/8''])),
           (''imagePullPolicy'', JString ''Always''),
           (''securityContext'', JObject
              [(''capabilities'', JObject [(''add'', JArray [JString ''NET_ADMIN''])])])],
      (JObject
                 [(''name'', JString ''enable-core-dump''),
                  (''image'', JString ''alpine''),
                  (''command'', JArray [JString ''/bin/sh'']),
                  (''args'', JArray
                     [JString ''-c'',
                      JString ''sysctl -w kernel.core_pattern=/tmp/core.%e.%p.%t && ulimit -c unlimited'']),
                  (''imagePullPolicy'', JString ''Always''),
                  (''securityContext'', JObject [(''privileged'', JBool True)])])]) =
   ''[{"image":"busybox","name":"setup"},{"args":["-p","15001","-u","1337","-i","10.0.0.0/8"],"image":"docker.io/istio/init:unittest","imagePullPolicy":"Always","name":"init","securityContext":{"capabilities":{"add":["NET_ADMIN"]}}},{"args":["-c","sysctl -w kernel.core_pattern=/tmp/core.%e.%p.%t '' @ CHR 0x5C # ''u0026'' @ CHR 0x5C # ''u0026 ulimit -c unlimited"],"command":["/bin/sh"],"image":"alpine","imagePullPolicy":"Always","name":"enable-core-dump","securityContext":{"privileged":true}}]''\<close>
  by (simp add: sample_pre_entry_def json_quote_def sort_keys_def)

section \<open>The claims\<close>

text \<open>C1, as the code has it. An error of the resolver is fatal to the mutator. For every
  template without the marker: when some container has an HTTP-get probe whose port is a name
  that the same container does not declare, the resolver reports an error; and whenever the
  resolver reports an error, the mutator returns an error and the pod spec is left as it
  was: no sidecar container and no volume is added. When moreover the init-containers
  annotation could be decoded and encoded and the mesh configuration is set, the error
  returned is the resolver's aggregated error and the template is left with the marker, the
  version and the init-containers annotation written (\<open>annotated\<close>).\<close>

theorem unresolved_port_is_fatal:
  assumes "\<not> hasMarker t"
  shows "(c \<in> set (Containers (Spec t)) \<and> ref \<in> set (probeRefs c) \<and>
          Type ref = intstr_String \<and>
          (\<forall>named \<in> set (Ports c). ContainerPort.Name named \<noteq> StrVal ref) \<longrightarrow>
            snd (healthPorts t) \<noteq> None) \<and>
         (snd (healthPorts t) \<noteq> None \<longrightarrow>
            snd (injectIntoPodTemplateSpec js p t) \<noteq> None \<and>
            Spec (fst (injectIntoPodTemplateSpec js p t)) = Spec t \<and>
            (\<forall>mesh pre v. Mesh p = Some mesh \<and> decodeInitContainers js t = Inr pre \<and>
               json_Marshal js (pre @ initEntries p mesh) = Inr v \<longrightarrow>
               injectIntoPodTemplateSpec js p t = (annotated p v t, snd (healthPorts t))))"
proof (intro conjI impI)
  assume "c \<in> set (Containers (Spec t)) \<and> ref \<in> set (probeRefs c) \<and>
          Type ref = intstr_String \<and>
          (\<forall>named \<in> set (Ports c). ContainerPort.Name named \<noteq> StrVal ref)"
  then show "snd (healthPorts t) \<noteq> None"
    using unresolved_healthPorts [of c t ref] by blast
next
  assume "snd (healthPorts t) \<noteq> None"
  then obtain err where e: "snd (healthPorts t) = Some err" by auto
  from inject_healthPorts_error [OF assms e]
  show "snd (injectIntoPodTemplateSpec js p t) \<noteq> None"
    and "Spec (fst (injectIntoPodTemplateSpec js p t)) = Spec t" by simp_all
  show "\<forall>mesh pre v. Mesh p = Some mesh \<and> decodeInitContainers js t = Inr pre \<and>
            json_Marshal js (pre @ initEntries p mesh) = Inr v \<longrightarrow>
            injectIntoPodTemplateSpec js p t = (annotated p v t, snd (healthPorts t))"
  proof (intro allI impI)
    fix mesh pre v
    assume a: "Mesh p = Some mesh \<and> decodeInitContainers js t = Inr pre \<and>
            json_Marshal js (pre @ initEntries p mesh) = Inr v"
    then have "injectIntoPodTemplateSpec js p t = (annotated p v t, Some err)"
      using inject_healthPorts_error_eq [OF assms _ _ _ e] by blast
    with e show "injectIntoPodTemplateSpec js p t = (annotated p v t, snd (healthPorts t))"
      by simp
  qed
qed

theorem unresolved_port_is_fatal_witness:
  "\<not> hasMarker broken_template \<and>
   broken_container \<in> set (Containers (Spec broken_template)) \<and>
   namedPort ''web'' \<in> set (probeRefs broken_container) \<and>
   Type (namedPort ''web'') = intstr_String \<and>
   StrVal (namedPort ''web'') = ''web'' \<and>
   map ContainerPort.Name (Ports broken_container) = [''http''] \<and>
   Mesh sample_params = Some sample_mesh \<and>
   decodeInitContainers sample_json broken_template = Inr [] \<and>
   json_Marshal sample_json ([] @ initEntries sample_params sample_mesh) =
     Inr (json_encode (JArray ([] @ initEntries sample_params sample_mesh))) \<and>
   snd (healthPorts broken_template) \<noteq> None \<and>
   injectIntoPodTemplateSpec sample_json sample_params broken_template =
     (annotated sample_params (json_encode (JArray ([] @ initEntries sample_params sample_mesh)))
        broken_template,
      snd (healthPorts broken_template)) \<and>
   Spec (fst (injectIntoPodTemplateSpec sample_json sample_params broken_template)) =
     Spec broken_template"
proof -
  have a: "broken_container \<in> set (Containers (Spec broken_template))"
    by (simp add: broken_template_def)
  have b: "namedPort ''web'' \<in> set (probeRefs broken_container)"
    by (simp add: probeRefs_def httpGetPort_def broken_container_def httpProbe_def)
  have c: "Type (namedPort ''web'') = intstr_String" by (simp add: namedPort_def)
  have d: "\<forall>named \<in> set (Ports broken_container). ContainerPort.Name named \<noteq> StrVal (namedPort ''web'')"
    by (simp add: sample_container_defs)
  have e: "Mesh sample_params = Some sample_mesh" by (simp add: sample_params_def)
  have f: "json_Marshal sample_json ([] @ initEntries sample_params sample_mesh) =
     Inr (json_encode (JArray ([] @ initEntries sample_params sample_mesh)))"
    by (simp add: sample_json_def)
  have n: "StrVal (namedPort ''web'') = ''web''"
    and m: "map ContainerPort.Name (Ports broken_container) = [''http'']"
    by (simp_all add: sample_container_defs)
  note th = unresolved_port_is_fatal [OF not_hasMarker_broken_template,
      where c = broken_container and ref = "namedPort ''web''" and js = sample_json
        and p = sample_params]
  from th a b c d have h: "snd (healthPorts broken_template) \<noteq> None" by blast
  from th h have s: "Spec (fst (injectIntoPodTemplateSpec sample_json sample_params broken_template)) =
     Spec broken_template" by blast
  from th h e decode_broken f
  have i: "injectIntoPodTemplateSpec sample_json sample_params broken_template =
     (annotated sample_params (json_encode (JArray ([] @ initEntries sample_params sample_mesh)))
        broken_template,
      snd (healthPorts broken_template))" by blast
  show ?thesis
    by (intro conjI not_hasMarker_broken_template a b c n m e decode_broken f h i s)
qed

text \<open>C1 as stated fails: the template \<open>broken_template\<close> has a liveness probe on the port
  name \<^verbatim>\<open>web\<close>, which its container does not declare. The resolver returns the ports 80
  and 8080 together with the error; the mutator returns that error and appends no
  sidecar.\<close>

theorem unresolved_port_counterexample:
  "\<not> hasMarker broken_template \<and>
   LivenessProbe broken_container = httpProbe (namedPort ''web'') \<and>
   resolvePort broken_container (namedPort ''web'') = Inl (MissingNamedPort (namedPort ''web'')) \<and>
   healthPorts broken_template =
     ([80, 8080], Some (MultiError [MissingNamedPort (namedPort ''web'')])) \<and>
   snd (injectIntoPodTemplateSpec sample_json sample_params broken_template) =
     Some (MultiError [MissingNamedPort (namedPort ''web'')]) \<and>
   Containers (Spec (fst (injectIntoPodTemplateSpec sample_json sample_params broken_template))) =
     [broken_container, admin_container]"
proof -
  have "resolvePort broken_container (namedPort ''web'') = Inl (MissingNamedPort (namedPort ''web''))"
    by (simp add: resolvePort_def sample_container_defs)
  moreover have "LivenessProbe broken_container = httpProbe (namedPort ''web'')"
    by (simp add: broken_container_def)
  moreover have "Containers (Spec (annotated sample_params
      (json_encode (JArray ([] @ initEntries sample_params sample_mesh))) broken_template)) =
      [broken_container, admin_container]"
    by (simp add: annotated_def broken_template_def)
  ultimately show ?thesis
    using not_hasMarker_broken_template healthPorts_broken by (simp add: inject_broken)
qed

text \<open>C2. Injection is idempotent at the mutator level: on a template whose annotations
  already hold the marker key the mutator returns success and the template is left exactly
  as it was; and whatever template the mutator is run on, running it again on what the first
  run left behind succeeds and changes nothing, so two runs leave the same template as
  one.\<close>

theorem inject_idempotent:
  "(hasMarker t \<longrightarrow> injectIntoPodTemplateSpec js p t = (t, None)) \<and>
   injectIntoPodTemplateSpec js p (fst (injectIntoPodTemplateSpec js p t)) =
     (fst (injectIntoPodTemplateSpec js p t), None)"
  using inject_marked [of t js p]
    inject_marked [OF inject_sets_marker, of js p js p t]
  by simp

theorem inject_idempotent_witness:
  "hasMarker marked_template \<and>
   injectIntoPodTemplateSpec sample_json sample_params marked_template = (marked_template, None) \<and>
   \<not> hasMarker hello_template \<and>
   injectIntoPodTemplateSpec sample_json sample_params
     (fst (injectIntoPodTemplateSpec sample_json sample_params hello_template)) =
     (fst (injectIntoPodTemplateSpec sample_json sample_params hello_template), None)"
  using inject_idempotent [of marked_template sample_json sample_params]
    inject_idempotent [of hello_template sample_json sample_params]
    hasMarker_marked_template not_hasMarker_hello_template
  by simp

text \<open>C3, as the code has it. For every document of a recognized kind that decodes to an
  object of that kind whose pod template carries the marker, the mutator changes nothing and
  the stream processor emits what \<^verbatim>\<open>yaml.Marshal\<close> makes of the decoded object
  (\<open>reencoded\<close>), followed by the separator line when the writes succeed: the re-encoded
  form, not the raw bytes.\<close>

theorem injected_document_reencoded:
  assumes "yaml_UnmarshalMeta ys raw = Inr meta" and "kinds js p z (Kind meta) = Some kind"
    and "yaml_Unmarshal ys raw (kind_typ kind) = Inr obj" and "kindOf obj = Kind meta"
    and "templateOf obj = Some t" and "hasMarker t"
  shows "updatedOf js ys p z raw = reencoded ys obj \<and>
         (\<forall>updated. yaml_Marshal ys obj = Inr updated \<and> wfail out updated = None \<and>
            wfail (out @ updated) separator = None \<longrightarrow>
            IntoResourceFile js ys z wfail p [Inr raw] out = (out @ updated @ separator, None))"
proof -
  have u: "updatedOf js ys p z raw = reencoded ys obj"
    using assms by (rule updatedOf_marked)
  have "\<forall>updated. yaml_Marshal ys obj = Inr updated \<and> wfail out updated = None \<and>
            wfail (out @ updated) separator = None \<longrightarrow>
            IntoResourceFile js ys z wfail p [Inr raw] out = (out @ updated @ separator, None)"
  proof (intro allI impI)
    fix updated
    assume a: "yaml_Marshal ys obj = Inr updated \<and> wfail out updated = None \<and>
            wfail (out @ updated) separator = None"
    then have "updatedOf js ys p z raw = Inr updated" using u by (simp add: reencoded_def)
    with a show "IntoResourceFile js ys z wfail p [Inr raw] out = (out @ updated @ separator, None)"
      using IntoResourceFile_single [of js ys p z raw updated wfail out] by simp
  qed
  with u show ?thesis by simp
qed

theorem injected_document_reencoded_witness:
  "yaml_UnmarshalMeta sample_yaml commented_job_doc = Inr \<lparr>Kind = ''Job'', APIVersion = []\<rparr> \<and>
   kinds sample_json sample_params () (Kind \<lparr>Kind = ''Job'', APIVersion = []\<rparr>) =
     Some \<lparr>kind_typ = Job () zeroPodTemplateSpec, kind_inject = injectJob sample_json sample_params\<rparr> \<and>
   yaml_Unmarshal sample_yaml commented_job_doc (Job () zeroPodTemplateSpec) = Inr marked_job \<and>
   kindOf marked_job = ''Job'' \<and>
   yaml_Marshal sample_yaml marked_job = Inr plain_job_doc \<and>
   never_fails [] plain_job_doc = None \<and> never_fails ([] @ plain_job_doc) separator = None \<and>
   updatedOf sample_json sample_yaml sample_params () commented_job_doc =
     reencoded sample_yaml marked_job \<and>
   IntoResourceFile sample_json sample_yaml () never_fails sample_params [Inr commented_job_doc] [] =
     ([] @ plain_job_doc @ separator, None)"
proof -
  have w: "never_fails [] plain_job_doc = None" "never_fails ([] @ plain_job_doc) separator = None"
    by (simp_all add: never_fails_def)
  note th = injected_document_reencoded [OF meta_commented_job kinds_sample_Job
      unmarshal_sample_Job kindOf_marked_job templateOf_marked_job hasMarker_marked_job,
      of never_fails "[]"]
  from th marshal_marked_job w
  have "IntoResourceFile sample_json sample_yaml () never_fails sample_params [Inr commented_job_doc] [] =
     ([] @ plain_job_doc @ separator, None)" by blast
  with th meta_commented_job kinds_sample_Job unmarshal_commented_job kindOf_marked_job
    marshal_marked_job w show ?thesis
    by simp
qed

text \<open>C3 as stated fails: the document \<open>commented_job_doc\<close> is a \<^verbatim>\<open>Job\<close> whose
  template carries the marker, after a comment line. The output is the re-encoded document,
  which has no comment line, and differs from the raw bytes.\<close>

theorem injected_document_counterexample:
  "yaml_UnmarshalMeta sample_yaml commented_job_doc = Inr \<lparr>Kind = ''Job'', APIVersion = []\<rparr> \<and>
   yaml_Unmarshal sample_yaml commented_job_doc (Job () zeroPodTemplateSpec) = Inr marked_job \<and>
   templateOf marked_job = Some (zeroPodTemplateSpec
     \<lparr>Annotations := Some [istioSidecarAnnotationSidecarKey \<mapsto> istioSidecarAnnotationSidecarValue]\<rparr>) \<and>
   hasMarker (zeroPodTemplateSpec
     \<lparr>Annotations := Some [istioSidecarAnnotationSidecarKey \<mapsto> istioSidecarAnnotationSidecarValue]\<rparr>) \<and>
   IntoResourceFile sample_json sample_yaml () never_fails sample_params [Inr commented_job_doc] [] =
     (plain_job_doc @ separator, None) \<and>
   plain_job_doc @ separator \<noteq> commented_job_doc @ separator"
proof -
  have "IntoResourceFile sample_json sample_yaml () never_fails sample_params
      [Inr commented_job_doc] [] = (plain_job_doc @ separator, None)"
    by (simp add: updatedOf_commented_job Write_def never_fails_def)
  then show ?thesis
    using meta_commented_job unmarshal_commented_job templateOf_marked_job hasMarker_marked_job
      sample_docs_distinct(1)
    by simp
qed

text \<open>C4. For every template without the marker, after a successful injection the last
  container is the sidecar \<^verbatim>\<open>proxy\<close> and its arguments are exactly \<^verbatim>\<open>proxy\<close>,
  \<^verbatim>\<open>sidecar\<close>, then \<^verbatim>\<open>-v\<close> and the verbosity if and only if the verbosity is
  positive, then \<^verbatim>\<open>--meshConfig\<close> and the name if and only if the name is not empty, then
  \<^verbatim>\<open>--passthrough\<close> and the port for each port of the resolver's result, which is the
  sorted list of the set of resolved ports: ascending, without duplicates, and the decimal
  strings passed are pairwise different as well.\<close>

theorem sidecar_args:
  assumes "\<not> hasMarker t" and "injectIntoPodTemplateSpec js p t = (t', None)"
  shows "Containers (Spec t') \<noteq> [] \<and>
         Container.Name (last (Containers (Spec t'))) = proxyContainerName \<and>
         Args (last (Containers (Spec t'))) =
           [''proxy'', ''sidecar''] @
           (if 0 < sint (Verbosity p) then [''-v'', Itoa (sint (Verbosity p))] else []) @
           (if MeshConfigMapName p \<noteq> [] then [''--meshConfig'', MeshConfigMapName p] else []) @
           concat (map (\<lambda>port. [''--passthrough'', Itoa port]) (fst (healthPorts t))) \<and>
         fst (healthPorts t) = sorted_list_of_set (set (rights (resolutions (Containers (Spec t))))) \<and>
         sorted (fst (healthPorts t)) \<and> distinct (fst (healthPorts t)) \<and>
         distinct (map Itoa (fst (healthPorts t)))"
proof -
  from inject_success [OF assms] obtain mesh v where
    t': "t' = injected p mesh v t" by blast
  have "distinct (fst (healthPorts t))" by (simp add: healthPorts_eq)
  then have "distinct (map Itoa (fst (healthPorts t)))" by (rule distinct_map_Itoa)
  moreover have "sorted (fst (healthPorts t))" by (simp add: healthPorts_eq)
  moreover have "fst (healthPorts t) =
      sorted_list_of_set (set (rights (resolutions (Containers (Spec t)))))"
    by (simp add: healthPorts_eq)
  moreover have "Containers (Spec t') \<noteq> []" by (simp add: t' injected_def)
  moreover have "last (Containers (Spec t')) =
      sidecarContainer p (sidecarArgs p (fst (healthPorts t)))
        (if AuthPolicyOf mesh = ProxyMeshConfig_MUTUAL_TLS then [certVolumeMount mesh] else [])"
    by (simp add: t' injected_def)
  ultimately show ?thesis
    using \<open>distinct (fst (healthPorts t))\<close>
    by (simp add: sidecarContainer_def sidecarArgs_eq)
qed

theorem sidecar_args_witness:
  "\<not> hasMarker probed_template \<and>
   snd (injectIntoPodTemplateSpec sample_json sample_params_mtls probed_template) = None \<and>
   Args (last (Containers (Spec (fst
     (injectIntoPodTemplateSpec sample_json sample_params_mtls probed_template))))) =
     [''proxy'', ''sidecar'', ''-v'', ''2'', ''--meshConfig'', ''istio'',
      ''--passthrough'', ''80'', ''--passthrough'', ''8080'']"
proof -
  have h: "injectIntoPodTemplateSpec sample_json sample_params_mtls probed_template =
      (fst (injectIntoPodTemplateSpec sample_json sample_params_mtls probed_template), None)"
    by (simp add: inject_probed_mtls)
  have v: "sint (Verbosity sample_params_mtls) = 2" "MeshConfigMapName sample_params_mtls = ''istio''"
    by (simp_all add: sample_param_defs)
  from sidecar_args [OF not_hasMarker_probed_template h]
  have "Args (last (Containers (Spec (fst
     (injectIntoPodTemplateSpec sample_json sample_params_mtls probed_template))))) =
     [''proxy'', ''sidecar'', ''-v'', ''2'', ''--meshConfig'', ''istio'',
      ''--passthrough'', ''80'', ''--passthrough'', ''8080'']"
    by (simp add: v healthPorts_probed Itoa_samples)
  with not_hasMarker_probed_template h show ?thesis by (simp add: inject_probed_mtls)
qed

text \<open>C5. The resolver: a literal integer port resolves to itself; a port name resolves to
  the container port of the first port of that name declared by the same container, and
  only that container's declared ports matter; a name without a match gives the error
  \<^verbatim>\<open>missing named port\<close>. The ports returned are sorted and without duplicates, and they
  are exactly the ports to which some HTTP-get probe of some container resolves, whatever
  errors occurred at other probes; the error returned aggregates the errors of all probes,
  in order.\<close>

theorem healthPorts_resolution:
  "(Type port = intstr_Int \<longrightarrow> resolvePort c port = Inr (sint (IntVal port))) \<and>
   (Type port = intstr_String \<and> i < length (Ports c) \<and>
      ContainerPort.Name (Ports c ! i) = StrVal port \<and>
      (\<forall>j<i. ContainerPort.Name (Ports c ! j) \<noteq> StrVal port) \<longrightarrow>
        resolvePort c port = Inr (sint (ContainerPort (Ports c ! i)))) \<and>
   (Type port = intstr_String \<and>
      (\<forall>named \<in> set (Ports c). ContainerPort.Name named \<noteq> StrVal port) \<longrightarrow>
        resolvePort c port = Inl (MissingNamedPort port)) \<and>
   (Ports c' = Ports c \<longrightarrow> resolvePort c' port = resolvePort c port) \<and>
   sorted (fst (healthPorts t)) \<and> distinct (fst (healthPorts t)) \<and>
   (\<forall>n. n \<in> set (fst (healthPorts t)) \<longleftrightarrow>
      (\<exists>c \<in> set (Containers (Spec t)). \<exists>ref \<in> set (probeRefs c). resolvePort c ref = Inr n)) \<and>
   snd (healthPorts t) = aggregate (lefts (resolutions (Containers (Spec t)))) \<and>
   (\<forall>e. e \<in> set (lefts (resolutions (Containers (Spec t)))) \<longleftrightarrow>
      (\<exists>c \<in> set (Containers (Spec t)). \<exists>ref \<in> set (probeRefs c). resolvePort c ref = Inl e))"
proof -
  have 1: "Type port = intstr_Int \<longrightarrow> resolvePort c port = Inr (sint (IntVal port))"
    by (simp add: resolvePort_Int)
  have 2: "Type port = intstr_String \<and> i < length (Ports c) \<and>
      ContainerPort.Name (Ports c ! i) = StrVal port \<and>
      (\<forall>j<i. ContainerPort.Name (Ports c ! j) \<noteq> StrVal port) \<longrightarrow>
        resolvePort c port = Inr (sint (ContainerPort (Ports c ! i)))"
    using resolvePort_String_first by blast
  have 3: "Type port = intstr_String \<and>
      (\<forall>named \<in> set (Ports c). ContainerPort.Name named \<noteq> StrVal port) \<longrightarrow>
        resolvePort c port = Inl (MissingNamedPort port)"
    using resolvePort_String_missing by blast
  have 4: "Ports c' = Ports c \<longrightarrow> resolvePort c' port = resolvePort c port"
    using resolvePort_Ports by blast
  have 5: "sorted (fst (healthPorts t))" "distinct (fst (healthPorts t))"
    by (simp_all add: healthPorts_eq)
  have 6: "\<forall>n. n \<in> set (fst (healthPorts t)) \<longleftrightarrow>
      (\<exists>c \<in> set (Containers (Spec t)). \<exists>ref \<in> set (probeRefs c). resolvePort c ref = Inr n)"
    using resolved_iff [of _ "Containers (Spec t)"] by (simp add: healthPorts_eq)
  have 7: "snd (healthPorts t) = aggregate (lefts (resolutions (Containers (Spec t))))"
    by (simp add: healthPorts_eq)
  have 8: "\<forall>e. e \<in> set (lefts (resolutions (Containers (Spec t)))) \<longleftrightarrow>
      (\<exists>c \<in> set (Containers (Spec t)). \<exists>ref \<in> set (probeRefs c). resolvePort c ref = Inl e)"
    using failed_iff [of _ "Containers (Spec t)"] by simp
  from 1 2 3 4 5 6 7 8 show ?thesis by (intro conjI)
qed

theorem healthPorts_resolution_witness:
  "Type (literalPort 8080) = intstr_Int \<and>
   resolvePort web_container (literalPort 8080) = Inr 8080 \<and>
   Type (namedPort ''http'') = intstr_String \<and> 0 < length (Ports web_container) \<and>
   ContainerPort.Name (Ports web_container ! 0) = StrVal (namedPort ''http'') \<and>
   resolvePort web_container (namedPort ''http'') = Inr 80 \<and>
   Type (namedPort ''web'') = intstr_String \<and>
   StrVal (namedPort ''web'') = ''web'' \<and>
   map ContainerPort.Name (Ports broken_container) = [''http''] \<and>
   resolvePort broken_container (namedPort ''web'') = Inl (MissingNamedPort (namedPort ''web'')) \<and>
   Ports hello_container = Ports web_container \<and>
   resolvePort hello_container (namedPort ''http'') = Inr 80 \<and>
   healthPorts broken_template =
     ([80, 8080], Some (MultiError [MissingNamedPort (namedPort ''web'')])) \<and>
   sorted (fst (healthPorts broken_template)) \<and> distinct (fst (healthPorts broken_template))"
proof -
  have a: "Type (literalPort 8080) = intstr_Int" by (simp add: literalPort_def)
  have b: "Type (namedPort ''http'') = intstr_String \<and> 0 < length (Ports web_container) \<and>
      ContainerPort.Name (Ports web_container ! 0) = StrVal (namedPort ''http'') \<and>
      (\<forall>j<0. ContainerPort.Name (Ports web_container ! j) \<noteq> StrVal (namedPort ''http''))"
    by (simp add: sample_container_defs)
  have c: "Type (namedPort ''web'') = intstr_String \<and>
      (\<forall>named \<in> set (Ports broken_container). ContainerPort.Name named \<noteq> StrVal (namedPort ''web''))"
    by (simp add: sample_container_defs)
  have d: "Ports hello_container = Ports web_container" by (simp add: sample_container_defs)
  have v: "sint (IntVal (literalPort 8080)) = 8080" "sint (ContainerPort (Ports web_container ! 0)) = 80"
    by (simp_all add: sample_container_defs)
  note t1 = healthPorts_resolution
    [of "literalPort 8080" web_container 0 web_container broken_template]
  note t2 = healthPorts_resolution
    [of "namedPort ''http''" web_container 0 hello_container broken_template]
  note t3 = healthPorts_resolution
    [of "namedPort ''web''" broken_container 0 broken_container broken_template]
  have r1: "resolvePort web_container (literalPort 8080) = Inr 8080"
    using t1 a v by simp
  have r2: "resolvePort web_container (namedPort ''http'') = Inr 80"
    using t2 b v by simp
  have r3: "resolvePort broken_container (namedPort ''web'') = Inl (MissingNamedPort (namedPort ''web''))"
    using t3 c by blast
  have r4: "resolvePort hello_container (namedPort ''http'') = Inr 80"
    using t2 d r2 by simp
  have r5: "sorted (fst (healthPorts broken_template))" "distinct (fst (healthPorts broken_template))"
    using t1 by blast+
  have n: "StrVal (namedPort ''web'') = ''web''"
    "map ContainerPort.Name (Ports broken_container) = [''http'']"
    by (simp_all add: sample_container_defs)
  from a b c d r1 r2 r3 r4 r5 n healthPorts_broken show ?thesis by simp
qed

text \<open>C6. For every template without the marker, after a successful injection the
  init-containers annotation is the JSON encoding of the entries decoded from the annotation
  the template came with (none when it had no such annotation), in their order, followed by
  the network-setup entry (name \<^verbatim>\<open>init\<close>, the configured image, the arguments
  \<^verbatim>\<open>-p <proxyListenPort> -u <uid>\<close> with \<^verbatim>\<open>-i <ranges>\<close> appended if and only if
  the range list is not empty, the capability \<^verbatim>\<open>NET_ADMIN\<close> added), followed, if and only if
  core dumps are enabled, by the core-dump entry: the privileged container
  \<^verbatim>\<open>enable-core-dump\<close> of image \<^verbatim>\<open>alpine\<close> that runs \<^verbatim>\<open>/bin/sh -c\<close> on the command
  setting the kernel's core pattern and lifting the core size limit.\<close>

theorem init_containers_annotation:
  assumes "\<not> hasMarker t" and "injectIntoPodTemplateSpec js p t = (t', None)"
  shows "\<exists>mesh pre v.
           Mesh p = Some mesh \<and>
           (annotationsOf t initContainersKey = None \<longrightarrow> pre = []) \<and>
           (\<forall>s. annotationsOf t initContainersKey = Some s \<longrightarrow> json_Unmarshal js s = Inr pre) \<and>
           json_Marshal js
             (pre @
              [JObject
                 [(''name'', JString ''init''),
                  (''image'', JString (InitImage p)),
                  (''args'', JArray (map JString
                     ([''-p'', Itoa (sint (ProxyListenPort mesh)),
                       ''-u'', Itoa (sint (SidecarProxyUID p))] @
                      (if IncludeIPRanges p \<noteq> [] then [''-i'', IncludeIPRanges p] else [])))),
                  (''imagePullPolicy'', JString ''Always''),
                  (''securityContext'', JObject
                     [(''capabilities'', JObject [(''add'', JArray [JString ''NET_ADMIN''])])])]] @
              (if EnableCoreDump p then [(JObject
                 [(''name'', JString ''enable-core-dump''),
                  (''image'', JString ''alpine''),
                  (''command'', JArray [JString ''/bin/sh'']),
                  (''args'', JArray
                     [JString ''-c'',
                      JString ''sysctl -w kernel.core_pattern=/tmp/core.%e.%p.%t && ulimit -c unlimited'']),
                  (''imagePullPolicy'', JString ''Always''),
                  (''securityContext'', JObject [(''privileged'', JBool True)])])] else [])) = Inr v \<and>
           annotationsOf t' initContainersKey = Some v"
proof -
  from inject_success [OF assms] obtain mesh pre v where
    m: "Mesh p = Some mesh" and d: "decodeInitContainers js t = Inr pre" and
    j: "json_Marshal js (pre @ initEntries p mesh) = Inr v" and t': "t' = injected p mesh v t"
    by blast
  have e: "initEntries p mesh =
      [JObject
         [(''name'', JString ''init''),
          (''image'', JString (InitImage p)),
          (''args'', JArray (map JString
             ([''-p'', Itoa (sint (ProxyListenPort mesh)),
               ''-u'', Itoa (sint (SidecarProxyUID p))] @
              (if IncludeIPRanges p \<noteq> [] then [''-i'', IncludeIPRanges p] else [])))),
          (''imagePullPolicy'', JString ''Always''),
          (''securityContext'', JObject
             [(''capabilities'', JObject [(''add'', JArray [JString ''NET_ADMIN''])])])]] @
      (if EnableCoreDump p then [(JObject
                 [(''name'', JString ''enable-core-dump''),
                  (''image'', JString ''alpine''),
                  (''command'', JArray [JString ''/bin/sh'']),
                  (''args'', JArray
                     [JString ''-c'',
                      JString ''sysctl -w kernel.core_pattern=/tmp/core.%e.%p.%t && ulimit -c unlimited'']),
                  (''imagePullPolicy'', JString ''Always''),
                  (''securityContext'', JObject [(''privileged'', JBool True)])])] else [])"
    by (simp add: initEntries_def initContainer_def initArgs_def Let_def initContainerName_def
        enableCoreDumpContainer_def enableCoreDumpContainerName_def enableCoreDumpImage_def)
  have a: "annotationsOf t' initContainersKey = Some v"
    by (simp add: t' annotationsOf_injected)
  have j': "json_Marshal js (pre @
      [JObject
         [(''name'', JString ''init''),
          (''image'', JString (InitImage p)),
          (''args'', JArray (map JString
             ([''-p'', Itoa (sint (ProxyListenPort mesh)),
               ''-u'', Itoa (sint (SidecarProxyUID p))] @
              (if IncludeIPRanges p \<noteq> [] then [''-i'', IncludeIPRanges p] else [])))),
          (''imagePullPolicy'', JString ''Always''),
          (''securityContext'', JObject
             [(''capabilities'', JObject [(''add'', JArray [JString ''NET_ADMIN''])])])]] @
      (if EnableCoreDump p then [(JObject
                 [(''name'', JString ''enable-core-dump''),
                  (''image'', JString ''alpine''),
                  (''command'', JArray [JString ''/bin/sh'']),
                  (''args'', JArray
                     [JString ''-c'',
                      JString ''sysctl -w kernel.core_pattern=/tmp/core.%e.%p.%t && ulimit -c unlimited'']),
                  (''imagePullPolicy'', JString ''Always''),
                  (''securityContext'', JObject [(''privileged'', JBool True)])])] else [])) = Inr v"
    using j by (simp only: e)
  from decodeInitContainers_cases [OF d]
  have c1: "annotationsOf t initContainersKey = None \<longrightarrow> pre = []"
    and c2: "\<forall>s. annotationsOf t initContainersKey = Some s \<longrightarrow> json_Unmarshal js s = Inr pre"
    by simp_all
  show ?thesis
    by (rule exI [of _ mesh], rule exI [of _ pre], rule exI [of _ v]) (intro conjI m c1 c2 j' a)
qed

theorem init_containers_annotation_witness:
  \<open>\<not> hasMarker hello_template \<and>
   snd (injectIntoPodTemplateSpec sample_json sample_params hello_template) = None \<and>
   annotationsOf hello_template initContainersKey = None \<and>
   annotationsOf (fst (injectIntoPodTemplateSpec sample_json sample_params hello_template))
     initContainersKey =
     Some ''[{"args":["-p","15001","-u","1337"],"image":"docker.io/istio/init:unittest","imagePullPolicy":"Always","name":"init","securityContext":{"capabilities":{"add":["NET_ADMIN"]}}}]'' \<and>
   \<not> hasMarker probed_template \<and>
   snd (injectIntoPodTemplateSpec sample_json sample_params_mtls probed_template) = None \<and>
   annotationsOf probed_template initContainersKey = Some ''[{"image":"busybox","name":"setup"}]'' \<and>
   json_Unmarshal sample_json ''[{"image":"busybox","name":"setup"}]'' =
     Inr [JObject [(''name'', JString ''setup''), (''image'', JString ''busybox'')]] \<and>
   annotationsOf (fst (injectIntoPodTemplateSpec sample_json sample_params_mtls probed_template))
     initContainersKey =
     Some (''[{"image":"busybox","name":"setup"},{"args":["-p","15001","-u","1337","-i","10.0.0.0/8"],"image":"docker.io/istio/init:unittest","imagePullPolicy":"Always","name":"init","securityContext":{"capabilities":{"add":["NET_ADMIN"]}}},{"args":["-c","sysctl -w kernel.core_pattern=/tmp/core.%e.%p.%t '' @ CHR 0x5C # ''u0026'' @ CHR 0x5C # ''u0026 ulimit -c unlimited"],"command":["/bin/sh"],"image":"alpine","imagePullPolicy":"Always","name":"enable-core-dump","securityContext":{"privileged":true}}]'')\<close>
proof -
  have hello: \<open>\<not> hasMarker hello_template \<and>
   snd (injectIntoPodTemplateSpec sample_json sample_params hello_template) = None \<and>
   annotationsOf hello_template initContainersKey = None \<and>
   annotationsOf (fst (injectIntoPodTemplateSpec sample_json sample_params hello_template))
     initContainersKey =
     Some ''[{"args":["-p","15001","-u","1337"],"image":"docker.io/istio/init:unittest","imagePullPolicy":"Always","name":"init","securityContext":{"capabilities":{"add":["NET_ADMIN"]}}}]''\<close>
  proof -
  have n: "annotationsOf hello_template initContainersKey = None"
    by (simp add: annotationsOf_def hello_template_def)
  from init_containers_annotation [OF not_hasMarker_hello_template inject_hello_fst]
  obtain mesh pre v where all:
    "Mesh sample_params = Some mesh \<and>
     (annotationsOf hello_template initContainersKey = None \<longrightarrow> pre = []) \<and>
     (\<forall>s. annotationsOf hello_template initContainersKey = Some s \<longrightarrow>
        json_Unmarshal sample_json s = Inr pre) \<and>
     json_Marshal sample_json
         (pre @
          [JObject
             [(''name'', JString ''init''),
              (''image'', JString (InitImage sample_params)),
              (''args'', JArray (map JString
                 ([''-p'', Itoa (sint (ProxyListenPort mesh)),
                   ''-u'', Itoa (sint (SidecarProxyUID sample_params))] @
                  (if IncludeIPRanges sample_params \<noteq> [] then [''-i'', IncludeIPRanges sample_params]
                   else [])))),
              (''imagePullPolicy'', JString ''Always''),
              (''securityContext'', JObject
                 [(''capabilities'', JObject [(''add'', JArray [JString ''NET_ADMIN''])])])]] @
          (if EnableCoreDump sample_params then [(JObject
                 [(''name'', JString ''enable-core-dump''),
                  (''image'', JString ''alpine''),
                  (''command'', JArray [JString ''/bin/sh'']),
                  (''args'', JArray
                     [JString ''-c'',
                      JString ''sysctl -w kernel.core_pattern=/tmp/core.%e.%p.%t && ulimit -c unlimited'']),
                  (''imagePullPolicy'', JString ''Always''),
                  (''securityContext'', JObject [(''privileged'', JBool True)])])] else [])) = Inr v \<and>
     annotationsOf (fst (injectIntoPodTemplateSpec sample_json sample_params hello_template))
          initContainersKey = Some v"
    by (elim exE) (rule that)
  from all have m: "Mesh sample_params = Some mesh" by (elim conjE)
  from all have p: "annotationsOf hello_template initContainersKey = None \<longrightarrow> pre = []"
    by (elim conjE)
  from all have a: "annotationsOf (fst (injectIntoPodTemplateSpec sample_json sample_params hello_template))
          initContainersKey = Some v" by (elim conjE)
  from m have mesh: "mesh = sample_mesh" by (simp add: sample_params_def)
  from p n have pre: "pre = []" by simp
  from all have "json_Marshal sample_json
         ([] @
          [JObject
             [(''name'', JString ''init''),
              (''image'', JString (InitImage sample_params)),
              (''args'', JArray (map JString
                 ([''-p'', Itoa (sint (ProxyListenPort sample_mesh)),
                   ''-u'', Itoa (sint (SidecarProxyUID sample_params))] @
                  (if IncludeIPRanges sample_params \<noteq> [] then [''-i'', IncludeIPRanges sample_params]
                   else [])))),
              (''imagePullPolicy'', JString ''Always''),
              (''securityContext'', JObject
                 [(''capabilities'', JObject [(''add'', JArray [JString ''NET_ADMIN''])])])]] @
          (if EnableCoreDump sample_params then [(JObject
                 [(''name'', JString ''enable-core-dump''),
                  (''image'', JString ''alpine''),
                  (''command'', JArray [JString ''/bin/sh'']),
                  (''args'', JArray
                     [JString ''-c'',
                      JString ''sysctl -w kernel.core_pattern=/tmp/core.%e.%p.%t && ulimit -c unlimited'']),
                  (''imagePullPolicy'', JString ''Always''),
                  (''securityContext'', JObject [(''privileged'', JBool True)])])] else [])) = Inr v"
    unfolding mesh pre by (elim conjE)
  then have "json_encode (JArray
     [JObject
        [(''name'', JString ''init''),
         (''image'', JString ''docker.io/istio/init:unittest''),
         (''args'', JArray (map JString [''-p'', ''15001'', ''-u'', ''1337''])),
         (''imagePullPolicy'', JString ''Always''),
         (''securityContext'', JObject
            [(''capabilities'', JObject [(''add'', JArray [JString ''NET_ADMIN''])])])]]) = v"
    by (simp add: sample_params_def sample_mesh_def sample_json_def Itoa_samples
        del: json_encode.simps)
  then have v: \<open>v = ''[{"args":["-p","15001","-u","1337"],"image":"docker.io/istio/init:unittest","imagePullPolicy":"Always","name":"init","securityContext":{"capabilities":{"add":["NET_ADMIN"]}}}]''\<close>
    by (simp only: json_encode_init_hello)
    from not_hasMarker_hello_template n a v show ?thesis by (simp add: inject_hello)
  qed
  have probed: \<open>\<not> hasMarker probed_template \<and>
   snd (injectIntoPodTemplateSpec sample_json sample_params_mtls probed_template) = None \<and>
   annotationsOf probed_template initContainersKey = Some ''[{"image":"busybox","name":"setup"}]'' \<and>
   json_Unmarshal sample_json ''[{"image":"busybox","name":"setup"}]'' =
     Inr [JObject [(''name'', JString ''setup''), (''image'', JString ''busybox'')]] \<and>
   annotationsOf (fst (injectIntoPodTemplateSpec sample_json sample_params_mtls probed_template))
     initContainersKey =
     Some (''[{"image":"busybox","name":"setup"},{"args":["-p","15001","-u","1337","-i","10.0.0.0/8"],"image":"docker.io/istio/init:unittest","imagePullPolicy":"Always","name":"init","securityContext":{"capabilities":{"add":["NET_ADMIN"]}}},{"args":["-c","sysctl -w kernel.core_pattern=/tmp/core.%e.%p.%t '' @ CHR 0x5C # ''u0026'' @ CHR 0x5C # ''u0026 ulimit -c unlimited"],"command":["/bin/sh"],"image":"alpine","imagePullPolicy":"Always","name":"enable-core-dump","securityContext":{"privileged":true}}]'')\<close>
  proof -
  from init_containers_annotation [OF not_hasMarker_probed_template inject_probed_mtls_fst]
  obtain mesh pre v where all:
    "Mesh sample_params_mtls = Some mesh \<and>
     (annotationsOf probed_template initContainersKey = None \<longrightarrow> pre = []) \<and>
     (\<forall>s. annotationsOf probed_template initContainersKey = Some s \<longrightarrow>
        json_Unmarshal sample_json s = Inr pre) \<and>
     json_Marshal sample_json
         (pre @
          [JObject
             [(''name'', JString ''init''),
              (''image'', JString (InitImage sample_params_mtls)),
              (''args'', JArray (map JString
                 ([''-p'', Itoa (sint (ProxyListenPort mesh)),
                   ''-u'', Itoa (sint (SidecarProxyUID sample_params_mtls))] @
                  (if IncludeIPRanges sample_params_mtls \<noteq> []
                   then [''-i'', IncludeIPRanges sample_params_mtls] else [])))),
              (''imagePullPolicy'', JString ''Always''),
              (''securityContext'', JObject
                 [(''capabilities'', JObject [(''add'', JArray [JString ''NET_ADMIN''])])])]] @
          (if EnableCoreDump sample_params_mtls then [(JObject
                 [(''name'', JString ''enable-core-dump''),
                  (''image'', JString ''alpine''),
                  (''command'', JArray [JString ''/bin/sh'']),
                  (''args'', JArray
                     [JString ''-c'',
                      JString ''sysctl -w kernel.core_pattern=/tmp/core.%e.%p.%t && ulimit -c unlimited'']),
                  (''imagePullPolicy'', JString ''Always''),
                  (''securityContext'', JObject [(''privileged'', JBool True)])])] else [])) = Inr v \<and>
     annotationsOf (fst (injectIntoPodTemplateSpec sample_json sample_params_mtls probed_template))
          initContainersKey = Some v"
    by (elim exE) (rule that)
  from all have m: "Mesh sample_params_mtls = Some mesh" by (elim conjE)
  from all have u: "\<forall>s. annotationsOf probed_template initContainersKey = Some s \<longrightarrow>
        json_Unmarshal sample_json s = Inr pre" by (elim conjE)
  from all have a: "annotationsOf (fst (injectIntoPodTemplateSpec sample_json sample_params_mtls
          probed_template)) initContainersKey = Some v" by (elim conjE)
  from m have mesh: "mesh = sample_mesh\<lparr>AuthPolicyOf := ProxyMeshConfig_MUTUAL_TLS\<rparr>"
    by (simp add: sample_param_defs)
  from u annotation_probed have "json_Unmarshal sample_json sample_pre_text = Inr pre" by blast
  with unmarshal_sample_pre have pre: "pre = [sample_pre_entry]" by simp
  from all have "json_Marshal sample_json
         ([sample_pre_entry] @
          [JObject
             [(''name'', JString ''init''),
              (''image'', JString (InitImage sample_params_mtls)),
              (''args'', JArray (map JString
                 ([''-p'', Itoa (sint (ProxyListenPort
                                         (sample_mesh\<lparr>AuthPolicyOf := ProxyMeshConfig_MUTUAL_TLS\<rparr>))),
                   ''-u'', Itoa (sint (SidecarProxyUID sample_params_mtls))] @
                  (if IncludeIPRanges sample_params_mtls \<noteq> []
                   then [''-i'', IncludeIPRanges sample_params_mtls] else [])))),
              (''imagePullPolicy'', JString ''Always''),
              (''securityContext'', JObject
                 [(''capabilities'', JObject [(''add'', JArray [JString ''NET_ADMIN''])])])]] @
          (if EnableCoreDump sample_params_mtls then [(JObject
                 [(''name'', JString ''enable-core-dump''),
                  (''image'', JString ''alpine''),
                  (''command'', JArray [JString ''/bin/sh'']),
                  (''args'', JArray
                     [JString ''-c'',
                      JString ''sysctl -w kernel.core_pattern=/tmp/core.%e.%p.%t && ulimit -c unlimited'']),
                  (''imagePullPolicy'', JString ''Always''),
                  (''securityContext'', JObject [(''privileged'', JBool True)])])] else [])) = Inr v"
    unfolding mesh pre by (elim conjE)
  then have v: "v = json_encode (JArray
       [sample_pre_entry,
        JObject
          [(''name'', JString ''init''),
           (''image'', JString ''docker.io/istio/init:unittest''),
           (''args'', JArray (map JString [''-p'', ''15001'', ''-u'', ''1337'', ''-i'', ''10.0.0.0/8''])),
           (''imagePullPolicy'', JString ''Always''),
           (''securityContext'', JObject
              [(''capabilities'', JObject [(''add'', JArray [JString ''NET_ADMIN''])])])],
        (JObject
                 [(''name'', JString ''enable-core-dump''),
                  (''image'', JString ''alpine''),
                  (''command'', JArray [JString ''/bin/sh'']),
                  (''args'', JArray
                     [JString ''-c'',
                      JString ''sysctl -w kernel.core_pattern=/tmp/core.%e.%p.%t && ulimit -c unlimited'']),
                  (''imagePullPolicy'', JString ''Always''),
                  (''securityContext'', JObject [(''privileged'', JBool True)])])])"
    by (simp add: sample_param_defs sample_json_def Itoa_samples
        del: json_encode.simps)
  have s: "snd (injectIntoPodTemplateSpec sample_json sample_params_mtls probed_template) = None"
    by (simp add: inject_probed_mtls)
  have a': \<open>annotationsOf (fst (injectIntoPodTemplateSpec sample_json sample_params_mtls
          probed_template)) initContainersKey =
     Some (''[{"image":"busybox","name":"setup"},{"args":["-p","15001","-u","1337","-i","10.0.0.0/8"],"image":"docker.io/istio/init:unittest","imagePullPolicy":"Always","name":"init","securityContext":{"capabilities":{"add":["NET_ADMIN"]}}},{"args":["-c","sysctl -w kernel.core_pattern=/tmp/core.%e.%p.%t '' @ CHR 0x5C # ''u0026'' @ CHR 0x5C # ''u0026 ulimit -c unlimited"],"command":["/bin/sh"],"image":"alpine","imagePullPolicy":"Always","name":"enable-core-dump","securityContext":{"privileged":true}}]'')\<close>
    by (rule a [unfolded v json_encode_probed])
  have ap: \<open>annotationsOf probed_template initContainersKey = Some ''[{"image":"busybox","name":"setup"}]''\<close>
    by (rule annotation_probed [unfolded sample_pre_text_eq])
  have up: \<open>json_Unmarshal sample_json ''[{"image":"busybox","name":"setup"}]'' =
     Inr [JObject [(''name'', JString ''setup''), (''image'', JString ''busybox'')]]\<close>
    by (rule unmarshal_sample_pre [unfolded sample_pre_text_eq sample_pre_entry_def])
    show ?thesis
      by (intro conjI not_hasMarker_probed_template s ap up a')
  qed
  from hello probed show ?thesis by (elim conjE, intro conjI)
qed

text \<open>C7. For every template without the marker, after a successful injection: under
  mutual TLS the sidecar has exactly one volume mount, read-only, at the configured
  certificate path, and exactly one volume is appended to the pod spec, from the secret
  \<^verbatim>\<open>istio.\<close> followed by the service-account name (\<^verbatim>\<open>default\<close> when that is empty);
  otherwise the sidecar has no volume mount and the volumes are unchanged.\<close>

theorem cert_volume:
  assumes "\<not> hasMarker t" and "injectIntoPodTemplateSpec js p t = (t', None)"
  shows "\<exists>mesh. Mesh p = Some mesh \<and>
           (AuthPolicyOf mesh = ProxyMeshConfig_MUTUAL_TLS \<longrightarrow>
              VolumeMounts (last (Containers (Spec t'))) =
                [\<lparr>VolumeMount.Name = istioCertVolumeName, ReadOnly = True,
                  MountPath = AuthCertsPath mesh\<rparr>] \<and>
              Volumes (Spec t') = Volumes (Spec t) @
                [\<lparr>Volume.Name = istioCertVolumeName,
                  VolumeSourceOf = \<lparr>Secret = Some \<lparr>SecretName = ''istio.'' @
                    (if ServiceAccountName (Spec t) = [] then ''default''
                     else ServiceAccountName (Spec t))\<rparr>\<rparr>\<rparr>]) \<and>
           (AuthPolicyOf mesh \<noteq> ProxyMeshConfig_MUTUAL_TLS \<longrightarrow>
              VolumeMounts (last (Containers (Spec t'))) = [] \<and>
              Volumes (Spec t') = Volumes (Spec t))"
proof -
  from inject_success [OF assms] obtain mesh v where
    m: "Mesh p = Some mesh" and t': "t' = injected p mesh v t"
    by blast
  have "AuthPolicyOf mesh = ProxyMeshConfig_MUTUAL_TLS \<longrightarrow>
      VolumeMounts (last (Containers (Spec t'))) =
        [\<lparr>VolumeMount.Name = istioCertVolumeName, ReadOnly = True,
          MountPath = AuthCertsPath mesh\<rparr>] \<and>
      Volumes (Spec t') = Volumes (Spec t) @
        [\<lparr>Volume.Name = istioCertVolumeName,
          VolumeSourceOf = \<lparr>Secret = Some \<lparr>SecretName = ''istio.'' @
            (if ServiceAccountName (Spec t) = [] then ''default''
             else ServiceAccountName (Spec t))\<rparr>\<rparr>\<rparr>]"
    by (simp add: t' injected_def sidecarContainer_def certVolumeMount_def certVolume_def
        Let_def istioCertSecretPrefix_def)
  moreover have "AuthPolicyOf mesh \<noteq> ProxyMeshConfig_MUTUAL_TLS \<longrightarrow>
      VolumeMounts (last (Containers (Spec t'))) = [] \<and> Volumes (Spec t') = Volumes (Spec t)"
    by (simp add: t' injected_def sidecarContainer_def)
  ultimately show ?thesis using m by blast
qed

theorem cert_volume_witness:
  "\<not> hasMarker probed_template \<and> \<not> hasMarker hello_template \<and>
   snd (injectIntoPodTemplateSpec sample_json sample_params_mtls probed_template) = None \<and>
   Volumes (Spec (fst (injectIntoPodTemplateSpec sample_json sample_params_mtls probed_template))) =
     [\<lparr>Volume.Name = ''istio-certs'',
       VolumeSourceOf = \<lparr>Secret = Some \<lparr>SecretName = ''istio.web-sa''\<rparr>\<rparr>\<rparr>] \<and>
   VolumeMounts (last (Containers (Spec (fst
     (injectIntoPodTemplateSpec sample_json sample_params_mtls probed_template))))) =
     [\<lparr>VolumeMount.Name = ''istio-certs'', ReadOnly = True, MountPath = ''/etc/certs''\<rparr>] \<and>
   snd (injectIntoPodTemplateSpec sample_json sample_params_mtls hello_template) = None \<and>
   Volumes (Spec (fst (injectIntoPodTemplateSpec sample_json sample_params_mtls hello_template))) =
     [\<lparr>Volume.Name = ''istio-certs'',
       VolumeSourceOf = \<lparr>Secret = Some \<lparr>SecretName = ''istio.default''\<rparr>\<rparr>\<rparr>] \<and>
   snd (injectIntoPodTemplateSpec sample_json sample_params hello_template) = None \<and>
   Volumes (Spec (fst (injectIntoPodTemplateSpec sample_json sample_params hello_template))) = [] \<and>
   VolumeMounts (last (Containers (Spec (fst
     (injectIntoPodTemplateSpec sample_json sample_params hello_template))))) = []"
proof -
  have m1: "Mesh sample_params_mtls = Some (sample_mesh\<lparr>AuthPolicyOf := ProxyMeshConfig_MUTUAL_TLS\<rparr>)"
    and m2: "Mesh sample_params = Some sample_mesh"
    by (simp_all add: sample_param_defs)
  have s: "ServiceAccountName (Spec probed_template) = ''web-sa''"
    "ServiceAccountName (Spec hello_template) = []"
    "Volumes (Spec probed_template) = []" "Volumes (Spec hello_template) = []"
    by (simp_all add: probed_template_def hello_template_def)
  have 1: "Volumes (Spec (fst (injectIntoPodTemplateSpec sample_json sample_params_mtls probed_template))) =
     [\<lparr>Volume.Name = ''istio-certs'',
       VolumeSourceOf = \<lparr>Secret = Some \<lparr>SecretName = ''istio.web-sa''\<rparr>\<rparr>\<rparr>] \<and>
   VolumeMounts (last (Containers (Spec (fst
     (injectIntoPodTemplateSpec sample_json sample_params_mtls probed_template))))) =
     [\<lparr>VolumeMount.Name = ''istio-certs'', ReadOnly = True, MountPath = ''/etc/certs''\<rparr>]"
    using cert_volume [OF not_hasMarker_probed_template inject_probed_mtls_fst] m1 s
    by (auto simp: istioCertVolumeName_def sample_mesh_def)
  have 2: "Volumes (Spec (fst (injectIntoPodTemplateSpec sample_json sample_params_mtls hello_template))) =
     [\<lparr>Volume.Name = ''istio-certs'',
       VolumeSourceOf = \<lparr>Secret = Some \<lparr>SecretName = ''istio.default''\<rparr>\<rparr>\<rparr>]"
    using cert_volume [OF not_hasMarker_hello_template inject_hello_mtls_fst] m1 s
    by (auto simp: istioCertVolumeName_def sample_mesh_def)
  have 3: "Volumes (Spec (fst (injectIntoPodTemplateSpec sample_json sample_params hello_template))) = [] \<and>
   VolumeMounts (last (Containers (Spec (fst
     (injectIntoPodTemplateSpec sample_json sample_params hello_template))))) = []"
    using cert_volume [OF not_hasMarker_hello_template inject_hello_fst] m2 s
    by (auto simp: sample_mesh_def)
  from 1 2 3 not_hasMarker_probed_template not_hasMarker_hello_template show ?thesis
    by (simp add: inject_probed_mtls inject_hello_mtls inject_hello)
qed



text \<open>C9. The guard keys on presence alone: when the annotations map holds the marker key
  \<^verbatim>\<open>alpha.istio.io/sidecar\<close> under any value \<open>v\<close> whatsoever, the mutator returns success
  and leaves the template as it was; the value plays no part.\<close>

theorem inject_marker_any_value:
  assumes "Annotations t = Some m" and "m istioSidecarAnnotationSidecarKey = Some v"
  shows "injectIntoPodTemplateSpec js p t = (t, None)"
  using assms by (simp add: inject_marked hasMarker_def)

theorem inject_marker_any_value_witness:
  "Annotations marked_template = Some [istioSidecarAnnotationSidecarKey \<mapsto> ''ignored''] \<and>
   [istioSidecarAnnotationSidecarKey \<mapsto> ''ignored''] istioSidecarAnnotationSidecarKey = Some ''ignored'' \<and>
   ''ignored'' \<noteq> istioSidecarAnnotationSidecarValue \<and>
   injectIntoPodTemplateSpec sample_json sample_params marked_template = (marked_template, None)"
proof -
  have a: "Annotations marked_template = Some [istioSidecarAnnotationSidecarKey \<mapsto> ''ignored'']"
    by (simp add: marked_template_def)
  have b: "[istioSidecarAnnotationSidecarKey \<mapsto> ''ignored''] istioSidecarAnnotationSidecarKey = Some ''ignored''"
    by simp
  have c: "''ignored'' \<noteq> istioSidecarAnnotationSidecarValue"
    by (simp add: istioSidecarAnnotationSidecarValue_def)
  from inject_marker_any_value [OF a b, of sample_json sample_params] a b c
  show ?thesis by simp
qed

text \<open>C10. Frame condition: for every template without the marker, a successful injection
  leaves the labels and the service-account name as they were, keeps all containers
  unchanged and in order and appends exactly one, leaves every annotation other than the
  marker, the version and the init-containers annotation as it was, and appends one volume
  under mutual TLS and none otherwise.\<close>

theorem inject_frame:
  assumes "\<not> hasMarker t" and "injectIntoPodTemplateSpec js p t = (t', None)"
  shows "Labels t' = Labels t \<and>
         ServiceAccountName (Spec t') = ServiceAccountName (Spec t) \<and>
         (\<exists>sidecar. Containers (Spec t') = Containers (Spec t) @ [sidecar]) \<and>
         (\<forall>k. k \<notin> {istioSidecarAnnotationSidecarKey, istioSidecarAnnotationVersionKey,
                     initContainersKey} \<longrightarrow> annotationsOf t' k = annotationsOf t k) \<and>
         (\<exists>mesh. Mesh p = Some mesh \<and>
            (AuthPolicyOf mesh = ProxyMeshConfig_MUTUAL_TLS \<longrightarrow>
               (\<exists>volume. Volumes (Spec t') = Volumes (Spec t) @ [volume])) \<and>
            (AuthPolicyOf mesh \<noteq> ProxyMeshConfig_MUTUAL_TLS \<longrightarrow>
               Volumes (Spec t') = Volumes (Spec t)))"
proof -
  from inject_success [OF assms] obtain mesh v where
    m: "Mesh p = Some mesh" and t': "t' = injected p mesh v t"
    by blast
  have 1: "Labels t' = Labels t" "ServiceAccountName (Spec t') = ServiceAccountName (Spec t)"
    by (simp_all add: t' injected_def)
  have 2: "\<exists>sidecar. Containers (Spec t') = Containers (Spec t) @ [sidecar]"
    by (simp add: t' injected_def)
  have 3: "\<forall>k. k \<notin> {istioSidecarAnnotationSidecarKey, istioSidecarAnnotationVersionKey,
                     initContainersKey} \<longrightarrow> annotationsOf t' k = annotationsOf t k"
    by (simp add: t' annotationsOf_injected)
  have 4: "AuthPolicyOf mesh = ProxyMeshConfig_MUTUAL_TLS \<longrightarrow>
      (\<exists>volume. Volumes (Spec t') = Volumes (Spec t) @ [volume])"
    by (simp add: t' injected_def)
  have 5: "AuthPolicyOf mesh \<noteq> ProxyMeshConfig_MUTUAL_TLS \<longrightarrow>
      Volumes (Spec t') = Volumes (Spec t)"
    by (simp add: t' injected_def)
  from 1 2 3 m 4 5 show ?thesis by blast
qed

theorem inject_frame_witness:
  "\<not> hasMarker probed_template \<and>
   snd (injectIntoPodTemplateSpec sample_json sample_params_mtls probed_template) = None \<and>
   Labels (fst (injectIntoPodTemplateSpec sample_json sample_params_mtls probed_template)) =
     Labels probed_template \<and>
   ServiceAccountName (Spec (fst
     (injectIntoPodTemplateSpec sample_json sample_params_mtls probed_template))) = ''web-sa'' \<and>
   butlast (Containers (Spec (fst
     (injectIntoPodTemplateSpec sample_json sample_params_mtls probed_template)))) =
     [web_container, admin_container] \<and>
   length (Containers (Spec (fst
     (injectIntoPodTemplateSpec sample_json sample_params_mtls probed_template)))) = 3"
proof -
  note th = inject_frame [OF not_hasMarker_probed_template inject_probed_mtls_fst]
  have c: "Containers (Spec probed_template) = [web_container, admin_container]"
    "ServiceAccountName (Spec probed_template) = ''web-sa''"
    by (simp_all add: probed_template_def)
  from th obtain sidecar where
    "Containers (Spec (fst
       (injectIntoPodTemplateSpec sample_json sample_params_mtls probed_template))) =
     Containers (Spec probed_template) @ [sidecar]" by blast
  with th c not_hasMarker_probed_template show ?thesis by (simp add: inject_probed_mtls)
qed

end
